theory Spec2Isabelle
  imports Main
begin

section \<open>Python values and errors\<close>

text \<open>
  The reader in \<^verbatim>\<open>spatialdata/_io/read.py\<close> moves metadata around without computing on
  it: JSON attributes of zarr groups, the \<^verbatim>\<open>uns\<close> block of an AnnData table and the
  metadata of an ome-zarr node. These are Python values: \<^verbatim>\<open>None\<close>, booleans, integers,
  strings, lists, dicts (insertion ordered, hence association lists), numpy arrays and
  opaque objects (the transformations returned by \<^verbatim>\<open>get_transformation_from_dict\<close>).
  JSON numbers are represented by integers: the reader never does arithmetic on them.
\<close>

datatype scalar = SBool bool | SInt int | SStr string

text \<open>A numpy array: \<open>Item\<close> is a 0-dimensional array, \<open>Axis\<close> lists the sub-arrays along axis 0.\<close>

datatype ndarray = Item scalar | Axis "ndarray list"

datatype 't pyval =
    PNone
  | PBool bool
  | PInt int
  | PStr string
  | PList "'t pyval list"
  | PDict "(string \<times> 't pyval) list"
  | PNdarray ndarray
  | PObj 't

text \<open>Every \<^verbatim>\<open>raise\<close> of the reader and of the library calls it makes is a value.\<close>

datatype error =
    AssertionError
  | KeyError
  | IndexError
  | TypeError
  | ValueError
  | AttributeError
  | PathNotFoundError
  | DecodeError

fun and_then :: "error + 'a \<Rightarrow> ('a \<Rightarrow> error + 'b) \<Rightarrow> error + 'b" where
  "and_then (Inl e) f = Inl e"
| "and_then (Inr x) f = f x"

text \<open>A \<^verbatim>\<open>for\<close> loop whose body may raise: the first error ends the loop.\<close>

fun for_each :: "('a \<Rightarrow> 's \<Rightarrow> error + 's) \<Rightarrow> 'a list \<Rightarrow> 's \<Rightarrow> error + 's" where
  "for_each body [] s = Inr s"
| "for_each body (x # xs) s = and_then (body x s) (for_each body xs)"

text \<open>A list comprehension whose element expression may raise.\<close>

fun map_err :: "('a \<Rightarrow> error + 'b) \<Rightarrow> 'a list \<Rightarrow> error + 'b list" where
  "map_err f [] = Inr []"
| "map_err f (x # xs) = and_then (f x) (\<lambda>y. and_then (map_err f xs) (\<lambda>ys. Inr (y # ys)))"

text \<open>
  \<^verbatim>\<open>d[k] = v\<close> on a dict: an existing key keeps its position, a new key goes to the end.
\<close>

fun dict_set :: "('k \<times> 'v) list \<Rightarrow> 'k \<Rightarrow> 'v \<Rightarrow> ('k \<times> 'v) list" where
  "dict_set [] k v = [(k, v)]"
| "dict_set ((k', v') # kvs) k v =
     (if k' = k then (k, v) # kvs else (k', v') # dict_set kvs k v)"

text \<open>\<^verbatim>\<open>x["key"]\<close>: a dict looks the key up; no other value modelled here accepts a string index.\<close>

fun getitem_key :: "'t pyval \<Rightarrow> string \<Rightarrow> error + 't pyval" where
  "getitem_key (PDict d) k = (case map_of d k of None \<Rightarrow> Inl KeyError | Some v \<Rightarrow> Inr v)"
| "getitem_key (PNdarray a) k = Inl IndexError"
| "getitem_key v k = Inl TypeError"

text \<open>The Python value of an array item.\<close>

fun scalar_value :: "scalar \<Rightarrow> 't pyval" where
  "scalar_value (SBool b) = PBool b"
| "scalar_value (SInt i) = PInt i"
| "scalar_value (SStr s) = PStr s"

text \<open>What indexing or iterating a numpy array hands out: a scalar or a sub-array.\<close>

fun unbox :: "ndarray \<Rightarrow> 't pyval" where
  "unbox (Item s) = scalar_value s"
| "unbox (Axis xs) = PNdarray (Axis xs)"

text \<open>\<^verbatim>\<open>x[0]\<close>.\<close>

fun getitem0 :: "'t pyval \<Rightarrow> error + 't pyval" where
  "getitem0 (PList []) = Inl IndexError"
| "getitem0 (PList (x # xs)) = Inr x"
| "getitem0 (PStr []) = Inl IndexError"
| "getitem0 (PStr (c # cs)) = Inr (PStr [c])"
| "getitem0 (PDict d) = Inl KeyError"
| "getitem0 (PNdarray (Item s)) = Inl IndexError"
| "getitem0 (PNdarray (Axis [])) = Inl IndexError"
| "getitem0 (PNdarray (Axis (x # xs))) = Inr (unbox x)"
| "getitem0 v = Inl TypeError"

text \<open>\<^verbatim>\<open>for t in x\<close>: the items x yields.\<close>

fun py_iter :: "'t pyval \<Rightarrow> error + 't pyval list" where
  "py_iter (PList xs) = Inr xs"
| "py_iter (PDict d) = Inr (map (\<lambda>kv. PStr (fst kv)) d)"
| "py_iter (PStr s) = Inr (map (\<lambda>c. PStr [c]) s)"
| "py_iter (PNdarray (Axis xs)) = Inr (map unbox xs)"
| "py_iter v = Inl TypeError"

text \<open>
  \<^verbatim>\<open>ndarray.tolist()\<close>: nested lists of Python scalars; a 0-dimensional array gives the
  scalar itself.
\<close>

fun tolist :: "ndarray \<Rightarrow> 't pyval" where
  "tolist (Item s) = scalar_value s"
| "tolist (Axis xs) = PList (map tolist xs)"

section \<open>The annotation table and the repair of its attributes\<close>

text \<open>
  An AnnData table as far as \<^verbatim>\<open>read_zarr\<close> sees it: the row data, which it never touches,
  and the \<^verbatim>\<open>uns\<close> dict.
\<close>

record 't anndata =
  ad_X :: "int list list"
  uns :: "(string \<times> 't pyval) list"

text \<open>
  Lines 141--150 of \<^verbatim>\<open>read_zarr\<close>, on the object \<^verbatim>\<open>attrs = table.uns[TableModel.ATTRS_KEY]\<close>:
  \<^verbatim>\<open>
  if "region" not in attrs: attrs["region"] = None
  if "region_key" not in attrs: attrs["region_key"] = None
  if "instance_key" not in attrs: attrs["instance_key"] = None
  if "region" in attrs and isinstance(attrs["region"], np.ndarray):
      attrs["region"] = attrs["region"].tolist()
  \<close>
  On a dict these are key tests and item assignments. Every value that is not a dict
  raises on the way: a numpy array rejects the string index of the item access
  (IndexError); the other values reject the membership test or the item access (TypeError).
\<close>

definition fill_missing :: "string \<Rightarrow> (string \<times> 't pyval) list \<Rightarrow> (string \<times> 't pyval) list" where
  "fill_missing k d = (if map_of d k = None then dict_set d k PNone else d)"

definition fix_region_type :: "(string \<times> 't pyval) list \<Rightarrow> (string \<times> 't pyval) list" where
  "fix_region_type d =
     (case map_of d ''region'' of
        Some (PNdarray a) \<Rightarrow> dict_set d ''region'' (tolist a)
      | _ \<Rightarrow> d)"

definition fix_dict :: "(string \<times> 't pyval) list \<Rightarrow> (string \<times> 't pyval) list" where
  "fix_dict d =
     fix_region_type
       (fill_missing ''instance_key''
         (fill_missing ''region_key''
           (fill_missing ''region'' d)))"

definition fix_attrs :: "'t pyval \<Rightarrow> error + 't pyval" where
  "fix_attrs attrs =
     (case attrs of
        PDict d \<Rightarrow> Inr (PDict (fix_dict d))
      | PNdarray a \<Rightarrow> Inl IndexError
      | _ \<Rightarrow> Inl TypeError)"

text \<open>
  Lines 139--150: the guard \<^verbatim>\<open>if TableModel.ATTRS_KEY in table.uns\<close> and the repair, which
  mutates the dict stored under that key in place. \<open>key\<close> is \<^verbatim>\<open>TableModel.ATTRS_KEY\<close>,
  a constant of \<^verbatim>\<open>spatialdata._core.models\<close>.
\<close>

definition normalize_table :: "string \<Rightarrow> 't anndata \<Rightarrow> error + 't anndata" where
  "normalize_table key t =
     (case map_of (uns t) key of
        None \<Rightarrow> Inr t
      | Some attrs \<Rightarrow>
          and_then (fix_attrs attrs) (\<lambda>a. Inr (t\<lparr>uns := dict_set (uns t) key a\<rparr>)))"

section \<open>Nodes and the assembly of a multiscale element\<close>

text \<open>
  The specs an ome-zarr \<^verbatim>\<open>Node\<close> can carry. A \<^verbatim>\<open>Multiscales\<close> spec holds its
  \<^verbatim>\<open>datasets\<close>, the paths of the resolution levels in declared order.
\<close>

datatype spec = Multiscales "string list" | Label | Labels | OMERO | Plate | Well

fun isMultiscales :: "spec \<Rightarrow> bool" where
  "isMultiscales (Multiscales ds) = True"
| "isMultiscales s = False"

fun isLabel :: "spec \<Rightarrow> bool" where
  "isLabel Label = True"
| "isLabel s = False"

text \<open>
  A lazily loaded (dask) array as far as the reader and the constructors look at it: its
  dask key, which is its \<^verbatim>\<open>name\<close> attribute, and its shape.
\<close>

record dask_array =
  arr_name :: string
  arr_shape :: "nat list"

text \<open>
  A node as the ome-zarr reader hands it over: its specs, the arrays found under its
  location by path (what \<^verbatim>\<open>node.load(Multiscales).array(resolution=d, ...)\<close> loads), and the
  three entries of \<^verbatim>\<open>node.metadata\<close> that \<^verbatim>\<open>_read_multiscale\<close> reads. The
  \<^verbatim>\<open>Multiscales\<close> spec sets \<^verbatim>\<open>name\<close> (to \<^verbatim>\<open>None\<close> when the store gives none) and
  \<^verbatim>\<open>axes\<close> before it sets its datasets; it sets \<^verbatim>\<open>coordinateTransformations\<close> only
  when some dataset declares transformations, so that key may be missing.
\<close>

record 't node =
  specs :: "spec list"
  level_arrays :: "(string \<times> dask_array) list"
  md_name :: "'t pyval"
  md_axes :: "'t pyval"
  md_coordinateTransformations :: "'t pyval option"

text \<open>
  \<^verbatim>\<open>node.load(Multiscales)\<close> returns the first spec of that type, or \<^verbatim>\<open>None\<close>; reading
  \<^verbatim>\<open>.datasets\<close> of \<^verbatim>\<open>None\<close> raises AttributeError.
\<close>

fun load_Multiscales :: "spec list \<Rightarrow> string list option" where
  "load_Multiscales [] = None"
| "load_Multiscales (Multiscales ds # ss) = Some ds"
| "load_Multiscales (s # ss) = load_Multiscales ss"

text \<open>
  \<^verbatim>\<open>node.load(Multiscales).array(resolution=d, version=fmt.version)\<close>: the array at path
  \<open>d\<close> under the node, an error when there is none.
\<close>

definition array_at :: "'t node \<Rightarrow> string \<Rightarrow> error + dask_array" where
  "array_at nd d =
     (case map_of (level_arrays nd) d of None \<Rightarrow> Inl PathNotFoundError | Some a \<Rightarrow> Inr a)"

text \<open>A labelled array: an xarray \<^verbatim>\<open>DataArray\<close>, of which \<^verbatim>\<open>SpatialImage\<close> is a subclass.\<close>

record 't DataArray =
  da_data :: dask_array
  da_name :: "'t pyval"
  da_dims :: "'t pyval list"
  da_attrs :: "(string \<times> 't pyval) list"

text \<open>
  The constructor call \<^verbatim>\<open>DataArray(data, name=name, dims=axes, attrs=attrs)\<close> of lines
  39--44, and \<^verbatim>\<open>SpatialImage(...)\<close> of lines 49--54. It raises ValueError when the number
  of dimension names differs from the number of dimensions of the data, and a \<^verbatim>\<open>None\<close>
  name is replaced by the \<^verbatim>\<open>name\<close> attribute of the data, the dask key.
\<close>

definition new_DataArray ::
  "dask_array \<Rightarrow> 't pyval \<Rightarrow> 't pyval list \<Rightarrow> (string \<times> 't pyval) list \<Rightarrow> error + 't DataArray" where
  "new_DataArray data name dims attrs =
     (if length dims \<noteq> length (arr_shape data) then Inl ValueError
      else Inr \<lparr>da_data = data,
                da_name = (if name = PNone then PStr (arr_name data) else name),
                da_dims = dims,
                da_attrs = attrs\<rparr>)"

datatype 't element =
    SpatialImage "'t DataArray"
  | MultiscaleSpatialImage "(string \<times> 't DataArray) list"


text \<open>The decimal numeral of a natural number, as the f-string \<^verbatim>\<open>f"scale{i}"\<close> prints it.\<close>

definition digit :: "nat \<Rightarrow> char" where
  "digit d = char_of (48 + d)"

fun str_nat :: "nat \<Rightarrow> string" where
  "str_nat n = (if n < 10 then [digit n] else str_nat (n div 10) @ [digit (n mod 10)])"

declare str_nat.simps [simp del]

definition scale_key :: "nat \<Rightarrow> string" where
  "scale_key i = ''scale'' @ str_nat i"

text \<open>
  Line 31: \<^verbatim>\<open>[get_transformation_from_dict(t[0]) for t in node.metadata["coordinateTransformations"]]\<close>.
  The decoder \<open>dec\<close> is \<^verbatim>\<open>get_transformation_from_dict\<close> of
  \<^verbatim>\<open>spatialdata._core.transformations\<close>, taken as a parameter.
\<close>

definition parse_transformations :: "('t pyval \<Rightarrow> error + 't) \<Rightarrow> 't node \<Rightarrow> error + 't list" where
  "parse_transformations dec nd =
     (case md_coordinateTransformations nd of
        None \<Rightarrow> Inl KeyError
      | Some cts \<Rightarrow>
          and_then (py_iter cts) (\<lambda>items.
          map_err (\<lambda>t. and_then (getitem0 t) dec) items))"

text \<open>Line 33: \<^verbatim>\<open>[i["name"] for i in node.metadata["axes"]]\<close>.\<close>

definition node_axes :: "'t node \<Rightarrow> error + 't pyval list" where
  "node_axes nd =
     and_then (py_iter (md_axes nd)) (\<lambda>items.
     map_err (\<lambda>i. getitem_key i ''name'') items)"

text \<open>
  Lines 36--44: the loop \<^verbatim>\<open>for i, (t, d) in enumerate(zip(transformations, datasets))\<close>,
  which loads the array of the level, builds its \<^verbatim>\<open>DataArray\<close> and stores it in the dict
  \<^verbatim>\<open>multiscale_image\<close> under \<^verbatim>\<open>f"scale{i}"\<close>.
\<close>

fun build_pyramid ::
  "'t node \<Rightarrow> 't pyval list \<Rightarrow> nat \<Rightarrow> ('t \<times> string) list \<Rightarrow>
   (string \<times> 't DataArray) list \<Rightarrow> error + (string \<times> 't DataArray) list" where
  "build_pyramid nd axes i [] acc = Inr acc"
| "build_pyramid nd axes i ((t, d) # rest) acc =
     and_then (array_at nd d) (\<lambda>data.
     and_then (new_DataArray data (md_name nd) axes [(''transform'', PObj t)]) (\<lambda>a.
     build_pyramid nd axes (Suc i) rest (dict_set acc (scale_key i) a)))"

text \<open>
  \<^verbatim>\<open>_read_multiscale\<close>, lines 29--54. Line 32 reads \<^verbatim>\<open>node.metadata["name"]\<close>, which is
  \<open>md_name\<close>.
\<close>

definition read_multiscale :: "('t pyval \<Rightarrow> error + 't) \<Rightarrow> 't node \<Rightarrow> error + 't element" where
  "read_multiscale dec nd =
     (case load_Multiscales (specs nd) of
        None \<Rightarrow> Inl AttributeError
      | Some datasets \<Rightarrow>
          and_then (parse_transformations dec nd) (\<lambda>transformations.
          and_then (node_axes nd) (\<lambda>axes.
          if length transformations \<noteq> length datasets then Inl AssertionError
          else if length datasets > 1 then
            and_then (build_pyramid nd axes 0 (zip transformations datasets) [])
              (\<lambda>multiscale_image. Inr (MultiscaleSpatialImage multiscale_image))
          else
            (case transformations of
               [] \<Rightarrow> Inl IndexError
             | t # ts \<Rightarrow>
                 (case datasets of
                    [] \<Rightarrow> Inl IndexError
                  | d # ds \<Rightarrow>
                      and_then (array_at nd d) (\<lambda>data.
                      and_then (new_DataArray data (md_name nd) axes [(''transform'', PObj t)])
                        (\<lambda>a. Inr (SpatialImage a))))))))"

text \<open>
  The two tests of \<^verbatim>\<open>read_zarr\<close> on a node's specs: lines 96--98 for the nodes of a
  top-level group, lines 113--115 for the nodes under its \<^verbatim>\<open>labels\<close> path.
  \<^verbatim>\<open>np.any\<close> of an empty list is False, \<^verbatim>\<open>np.all\<close> of an empty list is True.
\<close>

definition image_test :: "'t node \<Rightarrow> bool" where
  "image_test nd =
     (list_ex isMultiscales (specs nd) \<and> list_all (\<lambda>s. \<not> isLabel s) (specs nd))"

definition label_test :: "'t node \<Rightarrow> bool" where
  "label_test nd = (list_ex isMultiscales (specs nd) \<and> list_ex isLabel (specs nd))"

text \<open>Lines 95--102: the loop over the nodes of the group, writing \<^verbatim>\<open>images[k]\<close>.\<close>

definition read_image_node ::
  "('t pyval \<Rightarrow> error + 't) \<Rightarrow> string \<Rightarrow> 't node \<Rightarrow>
   (string \<times> 't element) list \<Rightarrow> error + (string \<times> 't element) list" where
  "read_image_node dec k nd images =
     (if image_test nd
      then and_then (read_multiscale dec nd) (\<lambda>el. Inr (dict_set images k el))
      else Inr images)"

text \<open>Lines 112--119: the loop over the nodes under \<^verbatim>\<open>labels\<close>, writing \<^verbatim>\<open>labels[k]\<close>.\<close>

definition read_label_node ::
  "('t pyval \<Rightarrow> error + 't) \<Rightarrow> string \<Rightarrow> 't node \<Rightarrow>
   (string \<times> 't element) list \<Rightarrow> error + (string \<times> 't element) list" where
  "read_label_node dec k nd labels =
     (if label_test nd
      then and_then (read_multiscale dec nd) (\<lambda>el. Inr (dict_set labels k el))
      else Inr labels)"

section \<open>The store and the other element readers\<close>

text \<open>
  What \<^verbatim>\<open>zarr.open(path, mode="r")\<close> gives the reader: the names of the members of the
  group, its attributes (\<^verbatim>\<open>f.attrs.asdict()\<close>) and its arrays (\<^verbatim>\<open>np.array(f[name])\<close>).
\<close>

record 't zgroup =
  g_keys :: "string list"
  g_attrs :: "(string \<times> 't pyval) list"
  g_arrays :: "(string \<times> ndarray) list"

text \<open>
  Everything \<^verbatim>\<open>read.py\<close> calls and does not define, as one record of functions over paths:
  \<^item> \<open>zarr_open\<close>: the group \<^verbatim>\<open>zarr.open\<close> returns, \<open>None\<close> where the path holds no group;
  \<^item> \<open>zarr_is_array\<close>: whether \<^verbatim>\<open>zarr.open\<close> returns an array at the path;
  \<^item> \<open>reader_nodes\<close>: \<^verbatim>\<open>list(Reader(ZarrLocation(path))())\<close>;
  \<^item> \<open>loc_exists\<close>: \<^verbatim>\<open>ZarrLocation(path).exists()\<close>;
  \<^item> \<open>read_anndata_zarr\<close>: \<^verbatim>\<open>anndata._io.read_zarr\<close>;
  \<^item> \<open>get_transformation_from_dict\<close>: the decoder of \<^verbatim>\<open>spatialdata._core.transformations\<close>;
  \<^item> \<open>GeometryType\<close>: the member name of shapely's \<^verbatim>\<open>GeometryType\<close> enum for a code,
    \<open>None\<close> where the code is no member;
  \<^item> \<open>from_ragged_array\<close>: shapely's decoder of the ragged coordinate arrays;
  \<^item> \<open>ATTRS_KEY\<close>: \<^verbatim>\<open>TableModel.ATTRS_KEY\<close> of \<^verbatim>\<open>spatialdata._core.models\<close>.
\<close>

record ('t, 'g) env =
  zarr_open :: "string \<Rightarrow> 't zgroup option"
  zarr_is_array :: "string \<Rightarrow> bool"
  reader_nodes :: "string \<Rightarrow> 't node list"
  loc_exists :: "string \<Rightarrow> bool"
  read_anndata_zarr :: "string \<Rightarrow> error + 't anndata"
  get_transformation_from_dict :: "'t pyval \<Rightarrow> error + 't"
  GeometryType :: "int \<Rightarrow> string option"
  from_ragged_array :: "int \<times> string \<Rightarrow> ndarray \<Rightarrow> ndarray \<times> ndarray \<Rightarrow> error + 'g"
  ATTRS_KEY :: string

text \<open>\<^verbatim>\<open>f = zarr.open(store, mode="r")\<close> in the element readers, which go on to read \<^verbatim>\<open>f\<close> as a group.\<close>

definition open_group :: "('t, 'g) env \<Rightarrow> string \<Rightarrow> error + 't zgroup" where
  "open_group env path =
     (case zarr_open env path of None \<Rightarrow> Inl PathNotFoundError | Some f \<Rightarrow> Inr f)"

text \<open>
  \<^verbatim>\<open>zarr.open(path, mode="r").keys()\<close> (lines 64 and 85, lines 122 and 123): the member
  names of the group; an array has no \<^verbatim>\<open>keys\<close> (AttributeError), and a path that holds
  nothing cannot be opened.
\<close>

definition group_keys :: "('t, 'g) env \<Rightarrow> string \<Rightarrow> error + string list" where
  "group_keys env path =
     (case zarr_open env path of
        Some g \<Rightarrow> Inr (g_keys g)
      | None \<Rightarrow> if zarr_is_array env path then Inl AttributeError else Inl PathNotFoundError)"

text \<open>\<^verbatim>\<open>len(x)\<close>.\<close>

fun py_len :: "'t pyval \<Rightarrow> error + nat" where
  "py_len (PList xs) = Inr (length xs)"
| "py_len (PDict d) = Inr (length d)"
| "py_len (PStr s) = Inr (length s)"
| "py_len (PNdarray (Axis xs)) = Inr (length xs)"
| "py_len v = Inl TypeError"

text \<open>
  \<^verbatim>\<open>_get_transform_from_group\<close>, lines 72--83: the helper nested in \<^verbatim>\<open>read_zarr\<close>, which
  asserts one multiscale, one dataset and one transformation. No line of the file calls it.
\<close>

definition get_transform_from_group ::
  "('t pyval \<Rightarrow> error + 't) \<Rightarrow> (string \<times> 't pyval) list \<Rightarrow> error + 't" where
  "get_transform_from_group dec attrs =
     and_then (getitem_key (PDict attrs) ''multiscales'') (\<lambda>multiscales.
     and_then (py_len multiscales) (\<lambda>n.
     if n \<noteq> 1 then Inl AssertionError else
     and_then (getitem0 multiscales) (\<lambda>m.
     and_then (getitem_key m ''datasets'') (\<lambda>datasets.
     and_then (py_len datasets) (\<lambda>n.
     if n \<noteq> 1 then Inl AssertionError else
     and_then (getitem0 datasets) (\<lambda>d.
     and_then (getitem_key d ''coordinateTransformations'') (\<lambda>cts.
     and_then (py_iter cts) (\<lambda>items.
     and_then (map_err dec items) (\<lambda>transformations.
     if length transformations \<noteq> 1 then Inl AssertionError else
     (case transformations of [] \<Rightarrow> Inl IndexError | t # ts \<Rightarrow> Inr t))))))))))"

text \<open>
  What the three readers do instead (lines 175--176, 190--191, 206--207):
  \<^verbatim>\<open>attrs = f.attrs.asdict()["multiscales"][0]["datasets"][0]\<close> and
  \<^verbatim>\<open>get_transformation_from_dict(attrs["coordinateTransformations"][0])\<close>.
\<close>

definition first_dataset :: "(string \<times> 't pyval) list \<Rightarrow> error + 't pyval" where
  "first_dataset attrs =
     and_then (getitem_key (PDict attrs) ''multiscales'') (\<lambda>multiscales.
     and_then (getitem0 multiscales) (\<lambda>m.
     and_then (getitem_key m ''datasets'') getitem0))"

definition first_transformation ::
  "('t pyval \<Rightarrow> error + 't) \<Rightarrow> (string \<times> 't pyval) list \<Rightarrow> error + 't" where
  "first_transformation dec attrs =
     and_then (first_dataset attrs) (\<lambda>d.
     and_then (getitem_key d ''coordinateTransformations'') (\<lambda>cts.
     and_then (getitem0 cts) dec))"

text \<open>\<^verbatim>\<open>np.array(f[name])\<close>: KeyError when the group has no such member.\<close>

definition get_array :: "'t zgroup \<Rightarrow> string \<Rightarrow> error + ndarray" where
  "get_array f name = (case map_of (g_arrays f) name of None \<Rightarrow> Inl KeyError | Some a \<Rightarrow> Inr a)"

text \<open>
  \<^verbatim>\<open>np.split(a, 2)\<close> cuts axis 0 into two equal parts and raises ValueError when the
  length is odd; a 0-dimensional array has no axis 0. \<^verbatim>\<open>x.flatten()\<close> lists the items.
\<close>

definition np_split2 :: "ndarray \<Rightarrow> error + ndarray \<times> ndarray" where
  "np_split2 a =
     (case a of
        Item s \<Rightarrow> Inl IndexError
      | Axis xs \<Rightarrow>
          if even (length xs)
          then Inr (Axis (take (length xs div 2) xs), Axis (drop (length xs div 2) xs))
          else Inl ValueError)"

fun flatten_items :: "ndarray \<Rightarrow> scalar list" where
  "flatten_items (Item s) = [s]"
| "flatten_items (Axis xs) = concat (map flatten_items xs)"

definition flatten :: "ndarray \<Rightarrow> ndarray" where
  "flatten a = Axis (map Item (flatten_items a))"

text \<open>
  \<^verbatim>\<open>GeometryType(v)\<close>: the enum member (code and name) whose value equals v. A Python
  bool equals the integer 0 or 1; any other value is no member and raises ValueError.
\<close>

definition geometry_type :: "('t, 'g) env \<Rightarrow> 't pyval \<Rightarrow> error + int \<times> string" where
  "geometry_type env v =
     (case v of
        PInt c \<Rightarrow> (case GeometryType env c of None \<Rightarrow> Inl ValueError | Some nm \<Rightarrow> Inr (c, nm))
      | PBool b \<Rightarrow>
          (case GeometryType env (if b then 1 else 0) of
             None \<Rightarrow> Inl ValueError
           | Some nm \<Rightarrow> Inr (if b then 1 else 0, nm))
      | _ \<Rightarrow> Inl ValueError)"

record ('t, 'g) GeoDataFrame =
  geometry :: 'g
  gdf_attrs :: "(string \<times> 't pyval) list"

text \<open>\<^verbatim>\<open>_read_polygons\<close>, lines 168--169: the coordinates and the two offset arrays.\<close>

definition polygons_arrays :: "'t zgroup \<Rightarrow> error + ndarray \<times> ndarray \<times> ndarray" where
  "polygons_arrays f =
     and_then (get_array f ''coords'') (\<lambda>coords.
     and_then (get_array f ''offsets'') (\<lambda>offs.
     and_then (np_split2 offs) (\<lambda>halves.
     Inr (coords, flatten (fst halves), flatten (snd halves)))))"

text \<open>Lines 171--172: \<^verbatim>\<open>typ = GeometryType(spatialdata_attrs["geos"]["geometry_type"])\<close>.\<close>

definition polygons_type :: "('t, 'g) env \<Rightarrow> 't zgroup \<Rightarrow> error + int \<times> string" where
  "polygons_type env f =
     and_then (getitem_key (PDict (g_attrs f)) ''spatialdata_attrs'') (\<lambda>sa.
     and_then (getitem_key sa ''geos'') (\<lambda>geos.
     and_then (getitem_key geos ''geometry_type'') (geometry_type env)))"

text \<open>Line 173, right operand: \<^verbatim>\<open>spatialdata_attrs["geos"]["geometry_name"]\<close>.\<close>

definition polygons_name :: "'t zgroup \<Rightarrow> error + 't pyval" where
  "polygons_name f =
     and_then (getitem_key (PDict (g_attrs f)) ''spatialdata_attrs'') (\<lambda>sa.
     and_then (getitem_key sa ''geos'') (\<lambda>geos.
     getitem_key geos ''geometry_name''))"

text \<open>Lines 175--183: the transformation, the geometries and the returned frame.\<close>

definition polygons_finish ::
  "('t, 'g) env \<Rightarrow> 't zgroup \<Rightarrow> int \<times> string \<Rightarrow> ndarray \<Rightarrow> ndarray \<times> ndarray \<Rightarrow>
   error + ('t, 'g) GeoDataFrame" where
  "polygons_finish env f typ coords offsets =
     and_then (first_transformation (get_transformation_from_dict env) (g_attrs f)) (\<lambda>transforms.
     and_then (from_ragged_array env typ coords offsets) (\<lambda>geom.
     Inr \<lparr>geometry = geom, gdf_attrs = [(''transform'', PObj transforms)]\<rparr>))"

text \<open>
  \<^verbatim>\<open>_read_polygons\<close>, lines 163--183. The assertion of line 173 compares the member name,
  a string, with the stored value: they are equal only if that value is this string.
\<close>

definition read_polygons :: "('t, 'g) env \<Rightarrow> string \<Rightarrow> error + ('t, 'g) GeoDataFrame" where
  "read_polygons env store =
     and_then (open_group env store) (\<lambda>f.
     and_then (polygons_arrays f) (\<lambda>arrays.
     and_then (polygons_type env f) (\<lambda>typ.
     and_then (polygons_name f) (\<lambda>gname.
     if PStr (snd typ) \<noteq> gname then Inl AssertionError
     else polygons_finish env f typ (fst arrays) (snd arrays)))))"

text \<open>\<^verbatim>\<open>_read_shapes\<close>, lines 186--199.\<close>

definition read_shapes :: "('t, 'g) env \<Rightarrow> string \<Rightarrow> error + 't anndata" where
  "read_shapes env store =
     and_then (open_group env store) (\<lambda>f.
     and_then (first_transformation (get_transformation_from_dict env) (g_attrs f)) (\<lambda>transforms.
     and_then (getitem_key (PDict (g_attrs f)) ''spatialdata_attrs'') (\<lambda>sa.
     and_then (read_anndata_zarr env store) (\<lambda>adata.
     Inr (adata\<lparr>uns := dict_set (dict_set (uns adata) ''transform'' (PObj transforms))
                          ''spatialdata_attrs'' sa\<rparr>)))))"

text \<open>\<^verbatim>\<open>_read_points\<close>, lines 202--215.\<close>

definition read_points :: "('t, 'g) env \<Rightarrow> string \<Rightarrow> error + 't anndata" where
  "read_points env store =
     and_then (open_group env store) (\<lambda>f.
     and_then (first_transformation (get_transformation_from_dict env) (g_attrs f)) (\<lambda>transforms.
     and_then (read_anndata_zarr env store) (\<lambda>adata.
     Inr (adata\<lparr>uns := dict_set (uns adata) ''transform'' (PObj transforms)\<rparr>))))"

section \<open>The traversal\<close>

text \<open>
  The local variables of \<^verbatim>\<open>read_zarr\<close> (lines 65--70), which are also the fields of the
  \<^verbatim>\<open>SpatialData\<close> it returns (lines 153--160).
\<close>

record ('t, 'g) spatialdata =
  sd_images :: "(string \<times> 't element) list"
  sd_labels :: "(string \<times> 't element) list"
  sd_points :: "(string \<times> 't anndata) list"
  sd_polygons :: "(string \<times> ('t, 'g) GeoDataFrame) list"
  sd_shapes :: "(string \<times> 't anndata) list"
  sd_table :: "'t anndata option"

definition initial :: "('t, 'g) spatialdata" where
  "initial = \<lparr>sd_images = [], sd_labels = [], sd_points = [], sd_polygons = [],
              sd_shapes = [], sd_table = None\<rparr>"

text \<open>Lines 136--150: the table of a group is loaded and its attributes repaired.\<close>

definition load_table :: "('t, 'g) env \<Rightarrow> string \<Rightarrow> error + 't anndata" where
  "load_table env path =
     and_then (read_anndata_zarr env path) (normalize_table (ATTRS_KEY env))"

text \<open>
  Lines 123--150, the body of \<^verbatim>\<open>for j in g.keys()\<close>. The group \<open>g\<close> is opened at
  \<^verbatim>\<open>f_elem_store\<close>, so \<^verbatim>\<open>g[j].name\<close> is \<^verbatim>\<open>"/" + j\<close>. The four tests are separate
  \<^verbatim>\<open>if\<close> statements.
\<close>

definition read_child ::
  "('t, 'g) env \<Rightarrow> string \<Rightarrow> string \<Rightarrow> string \<Rightarrow> ('t, 'g) spatialdata \<Rightarrow>
   error + ('t, 'g) spatialdata" where
  "read_child env store k j st =
     (let f_elem = ''/'' @ k;
          f_elem_store = store @ f_elem;
          g_elem = ''/'' @ j;
          g_elem_store = f_elem_store @ g_elem @ f_elem
      in
        and_then
          (if g_elem = ''/points''
           then and_then (read_points env g_elem_store)
                  (\<lambda>p. Inr (st\<lparr>sd_points := dict_set (sd_points st) k p\<rparr>))
           else Inr st) (\<lambda>st1.
        and_then
          (if g_elem = ''/polygons''
           then and_then (read_polygons env g_elem_store)
                  (\<lambda>p. Inr (st1\<lparr>sd_polygons := dict_set (sd_polygons st1) k p\<rparr>))
           else Inr st1) (\<lambda>st2.
        and_then
          (if g_elem = ''/shapes''
           then and_then (read_shapes env g_elem_store)
                  (\<lambda>p. Inr (st2\<lparr>sd_shapes := dict_set (sd_shapes st2) k p\<rparr>))
           else Inr st2) (\<lambda>st3.
        if g_elem = ''/table''
        then and_then (load_table env (f_elem_store @ g_elem))
               (\<lambda>t. Inr (st3\<lparr>sd_table := Some t\<rparr>))
        else Inr st3))))"

text \<open>Lines 89--102: the nodes of the group are read into \<^verbatim>\<open>images\<close>.\<close>

definition read_images_step ::
  "('t, 'g) env \<Rightarrow> string \<Rightarrow> string \<Rightarrow> ('t, 'g) spatialdata \<Rightarrow> error + ('t, 'g) spatialdata" where
  "read_images_step env f_elem_store k st =
     and_then
       (for_each (read_image_node (get_transformation_from_dict env) k)
          (reader_nodes env f_elem_store) (sd_images st))
       (\<lambda>images. Inr (st\<lparr>sd_images := images\<rparr>))"

text \<open>
  Lines 106--119: the nodes under \<^verbatim>\<open>labels\<close> are read into \<^verbatim>\<open>labels\<close>, if that
  location exists.
\<close>

definition read_labels_step ::
  "('t, 'g) env \<Rightarrow> string \<Rightarrow> string \<Rightarrow> ('t, 'g) spatialdata \<Rightarrow> error + ('t, 'g) spatialdata" where
  "read_labels_step env f_elem_store k st =
     (if loc_exists env (f_elem_store @ ''/labels'')
      then and_then
             (for_each (read_label_node (get_transformation_from_dict env) k)
                (reader_nodes env (f_elem_store @ ''/labels'')) (sd_labels st))
             (\<lambda>labels. Inr (st\<lparr>sd_labels := labels\<rparr>))
      else Inr st)"

text \<open>Lines 122--150: the members of the group are dispatched on their names.\<close>

definition read_rest_step ::
  "('t, 'g) env \<Rightarrow> string \<Rightarrow> string \<Rightarrow> ('t, 'g) spatialdata \<Rightarrow> error + ('t, 'g) spatialdata" where
  "read_rest_step env store k st =
     and_then (group_keys env (store @ ''/'' @ k)) (\<lambda>keys.
     for_each (read_child env store k) keys st)"

text \<open>Lines 85--151, the body of \<^verbatim>\<open>for k in f.keys()\<close>; \<^verbatim>\<open>f[k].name\<close> is \<^verbatim>\<open>"/" + k\<close>.\<close>

definition read_group ::
  "('t, 'g) env \<Rightarrow> string \<Rightarrow> string \<Rightarrow> ('t, 'g) spatialdata \<Rightarrow> error + ('t, 'g) spatialdata" where
  "read_group env store k st =
     and_then (read_images_step env (store @ ''/'' @ k) k st) (\<lambda>st1.
     and_then (read_labels_step env (store @ ''/'' @ k) k st1) (\<lambda>st2.
     read_rest_step env store k st2))"

text \<open>\<^verbatim>\<open>read_zarr\<close>, lines 57--160, on a store given by its path.\<close>

definition read_zarr :: "('t, 'g) env \<Rightarrow> string \<Rightarrow> error + ('t, 'g) spatialdata" where
  "read_zarr env store =
     and_then (group_keys env store) (\<lambda>keys.
     for_each (read_group env store) keys initial)"

text \<open>Example tables: one whose attribute group holds only \<open>region_key\<close>, one whose region is a numpy array.\<close>

definition scenario_C_table :: "nat anndata" where
  "scenario_C_table =
     \<lparr>ad_X = [[1, 2], [3, 4]],
      uns = [(''spatialdata_attrs'', PDict [(''region_key'', PStr ''cell_ID'')])]\<rparr>"

definition array_region_table :: "nat anndata" where
  "array_region_table =
     \<lparr>ad_X = [[1, 2], [3, 4]],
      uns = [(''other'', PInt 7),
             (''spatialdata_attrs'',
                PDict [(''region'', PNdarray (Axis [Item (SStr ''a''), Item (SStr ''b'')])),
                       (''extra'', PInt 5)])]\<rparr>"

text \<open>
  Example inputs. The example decoder reads the integer stored under \<^verbatim>\<open>id\<close> in a
  transformation description and rejects everything else.
\<close>

definition example_decoder :: "nat pyval \<Rightarrow> error + nat" where
  "example_decoder v =
     (case v of
        PDict d \<Rightarrow> (case map_of d ''id'' of Some (PInt n) \<Rightarrow> Inr (nat n) | _ \<Rightarrow> Inl DecodeError)
      | _ \<Rightarrow> Inl DecodeError)"

definition cyx_axes :: "nat pyval" where
  "cyx_axes =
     PList [PDict [(''name'', PStr ''c''), (''type'', PStr ''channel'')],
            PDict [(''name'', PStr ''y''), (''type'', PStr ''space'')],
            PDict [(''name'', PStr ''x''), (''type'', PStr ''space'')]]"

text \<open>A node with one resolution level and one transformation.\<close>

definition image_node :: "nat node" where
  "image_node =
     \<lparr>specs = [Multiscales [''0'']],
      level_arrays = [(''0'', \<lparr>arr_name = ''from-zarr-img0'', arr_shape = [3, 64, 64]\<rparr>)],
      md_name = PStr ''img'',
      md_axes = cyx_axes,
      md_coordinateTransformations = Some (PList [PList [PDict [(''id'', PInt 1)]]])\<rparr>"

text \<open>A label node with two resolution levels and two transformations, stored without a name.\<close>

definition labels_node :: "nat node" where
  "labels_node =
     \<lparr>specs = [Multiscales [''0'', ''1''], Label],
      level_arrays = [(''0'', \<lparr>arr_name = ''from-zarr-seg0'', arr_shape = [1, 64, 64]\<rparr>),
                (''1'', \<lparr>arr_name = ''from-zarr-seg1'', arr_shape = [1, 32, 32]\<rparr>)],
      md_name = PNone,
      md_axes = cyx_axes,
      md_coordinateTransformations =
        Some (PList [PList [PDict [(''id'', PInt 1)]], PList [PDict [(''id'', PInt 2)]]])\<rparr>"



text \<open>A node that carries no multiscale spec.\<close>

definition plain_node :: "nat node" where
  "plain_node =
     \<lparr>specs = [Labels], level_arrays = [], md_name = PNone, md_axes = PList [],
      md_coordinateTransformations = None\<rparr>"

text \<open>The members of shapely's \<^verbatim>\<open>GeometryType\<close> enum.\<close>

definition shapely_GeometryType :: "int \<Rightarrow> string option" where
  "shapely_GeometryType =
     map_of [(- 1, ''MISSING''), (0, ''POINT''), (1, ''LINESTRING''), (2, ''LINEARRING''),
             (3, ''POLYGON''), (4, ''MULTIPOINT''), (5, ''MULTILINESTRING''),
             (6, ''MULTIPOLYGON''), (7, ''GEOMETRYCOLLECTION'')]"

text \<open>
  A polygons group holding one square, with type code 3, the given stored geometry name
  and the given transformation descriptions.
\<close>

definition polygons_group :: "nat pyval \<Rightarrow> nat pyval list \<Rightarrow> nat zgroup" where
  "polygons_group gname cts =
     \<lparr>g_keys = [''coords'', ''offsets''],
      g_attrs =
        [(''multiscales'',
            PList [PDict [(''datasets'',
              PList [PDict [(''path'', PStr ''0''), (''coordinateTransformations'', PList cts)]])]]),
         (''spatialdata_attrs'',
            PDict [(''geos'', PDict [(''geometry_name'', gname), (''geometry_type'', PInt 3)])])],
      g_arrays =
        [(''coords'',
            Axis [Axis [Item (SInt 0), Item (SInt 0)], Axis [Item (SInt 1), Item (SInt 0)],
                  Axis [Item (SInt 1), Item (SInt 1)], Axis [Item (SInt 0), Item (SInt 0)]]),
         (''offsets'', Axis [Item (SInt 0), Item (SInt 4), Item (SInt 0), Item (SInt 1)])]\<rparr>"

definition good_polygons :: "nat zgroup" where
  "good_polygons = polygons_group (PStr ''POLYGON'') [PDict [(''id'', PInt 7)]]"

text \<open>Scenario D of the specification: code 3 stored with the name of another type.\<close>

definition misnamed_polygons :: "nat zgroup" where
  "misnamed_polygons = polygons_group (PStr ''POINT'') [PDict [(''id'', PInt 7)]]"

definition two_transform_polygons :: "nat zgroup" where
  "two_transform_polygons =
     polygons_group (PStr ''POLYGON'') [PDict [(''id'', PInt 7)], PDict [(''id'', PInt 8)]]"

text \<open>
  A store \<^verbatim>\<open>data.zarr\<close> with two top-level groups: \<^verbatim>\<open>a\<close> holds an image, a label
  pyramid and a table; \<^verbatim>\<open>b\<close> holds no image and no labels, the given polygons group and
  a table.
\<close>

definition example_env :: "nat zgroup \<Rightarrow> (nat, int \<times> scalar list) env" where
  "example_env pg =
     \<lparr>zarr_open = (\<lambda>p.
        if p = ''data.zarr'' then Some \<lparr>g_keys = [''a'', ''b''], g_attrs = [], g_arrays = []\<rparr>
        else if p = ''data.zarr/a''
          then Some \<lparr>g_keys = [''labels'', ''table''], g_attrs = [], g_arrays = []\<rparr>
        else if p = ''data.zarr/b''
          then Some \<lparr>g_keys = [''polygons'', ''table''], g_attrs = [], g_arrays = []\<rparr>
        else if p = ''data.zarr/b/polygons/b'' then Some pg
        else None),
      zarr_is_array = (\<lambda>p. False),
      reader_nodes = (\<lambda>p.
        if p = ''data.zarr/a'' then [image_node]
        else if p = ''data.zarr/a/labels'' then [labels_node]
        else []),
      loc_exists = (\<lambda>p. p = ''data.zarr/a/labels''),
      read_anndata_zarr = (\<lambda>p.
        if p = ''data.zarr/a/table'' then Inr scenario_C_table
        else if p = ''data.zarr/b/table'' then Inr array_region_table
        else Inl PathNotFoundError),
      get_transformation_from_dict = example_decoder,
      GeometryType = shapely_GeometryType,
      from_ragged_array = (\<lambda>typ coords offsets. Inr (fst typ, flatten_items coords)),
      ATTRS_KEY = ''spatialdata_attrs''\<rparr>"

text \<open>What \<^verbatim>\<open>read_zarr\<close> returns on that store when the polygons group is well formed.\<close>

definition example_dataset :: "(nat, int \<times> scalar list) spatialdata" where
  "example_dataset =
     \<lparr>sd_images =
        [(''a'', SpatialImage
           \<lparr>da_data = \<lparr>arr_name = ''from-zarr-img0'', arr_shape = [3, 64, 64]\<rparr>,
            da_name = PStr ''img'',
            da_dims = [PStr ''c'', PStr ''y'', PStr ''x''],
            da_attrs = [(''transform'', PObj 1)]\<rparr>)],
      sd_labels =
        [(''a'', MultiscaleSpatialImage
           [(''scale0'',
               \<lparr>da_data = \<lparr>arr_name = ''from-zarr-seg0'', arr_shape = [1, 64, 64]\<rparr>,
                da_name = PStr ''from-zarr-seg0'',
                da_dims = [PStr ''c'', PStr ''y'', PStr ''x''],
                da_attrs = [(''transform'', PObj 1)]\<rparr>),
            (''scale1'',
               \<lparr>da_data = \<lparr>arr_name = ''from-zarr-seg1'', arr_shape = [1, 32, 32]\<rparr>,
                da_name = PStr ''from-zarr-seg1'',
                da_dims = [PStr ''c'', PStr ''y'', PStr ''x''],
                da_attrs = [(''transform'', PObj 2)]\<rparr>)])],
      sd_points = [],
      sd_polygons =
        [(''b'', \<lparr>geometry = (3, [SInt 0, SInt 0, SInt 1, SInt 0, SInt 1, SInt 1, SInt 0, SInt 0]),
                  gdf_attrs = [(''transform'', PObj 7)]\<rparr>)],
      sd_shapes = [],
      sd_table =
        Some \<lparr>ad_X = [[1, 2], [3, 4]],
              uns = [(''other'', PInt 7),
                     (''spatialdata_attrs'',
                        PDict [(''region'', PList [PStr ''a'', PStr ''b'']), (''extra'', PInt 5),
                               (''region_key'', PNone), (''instance_key'', PNone)])]\<rparr>\<rparr>"

section \<open>Properties of the attribute repair\<close>

lemma map_of_dict_set: "map_of (dict_set d k v) = (map_of d)(k \<mapsto> v)"
  by (induction d) (auto simp: fun_eq_iff)

lemma keys_dict_set:
  "map fst (dict_set d k v) = (if k \<in> fst ` set d then map fst d else map fst d @ [k])"
  by (induction d) force+

lemma dict_set_same: "dict_set (dict_set d k v) k v = dict_set d k v"
  by (induction d) auto

lemma scalar_value_not_ndarray: "scalar_value s \<noteq> PNdarray b"
  by (cases s) auto

lemma tolist_not_ndarray: "tolist a \<noteq> PNdarray b"
  by (cases a) (auto simp: scalar_value_not_ndarray)

lemma map_of_fill_missing:
  "map_of (fill_missing k d) = (if map_of d k = None then (map_of d)(k \<mapsto> PNone) else map_of d)"
  by (simp add: fill_missing_def map_of_dict_set)

lemma fill_missing_present: "map_of d k \<noteq> None \<Longrightarrow> fill_missing k d = d"
  by (auto simp: fill_missing_def)

lemma map_of_fix_region_type:
  "map_of (fix_region_type d) =
     (case map_of d ''region'' of
        Some (PNdarray a) \<Rightarrow> (map_of d)(''region'' \<mapsto> tolist a)
      | _ \<Rightarrow> map_of d)"
  by (auto simp: fix_region_type_def map_of_dict_set split: option.splits pyval.splits)

lemma fix_region_type_plain: "(\<And>a. map_of d ''region'' \<noteq> Some (PNdarray a)) \<Longrightarrow> fix_region_type d = d"
  by (auto simp: fix_region_type_def split: option.splits pyval.splits)

lemma fix_attrs_dict: "fix_attrs (PDict d) = Inr (PDict (fix_dict d))"
  by (simp add: fix_attrs_def)

lemma fix_attrs_not_dict: "(\<And>d. attrs \<noteq> PDict d) \<Longrightarrow> \<exists>e. fix_attrs attrs = Inl e"
  by (cases attrs) (auto simp: fix_attrs_def)

lemma map_of_fix_dict:
  "map_of (fix_dict d) k =
    (if k = ''region'' then
       (case map_of d ''region'' of None \<Rightarrow> Some PNone | Some (PNdarray a) \<Rightarrow> Some (tolist a) | Some v \<Rightarrow> Some v)
     else if k = ''region_key'' \<or> k = ''instance_key'' then
       (case map_of d k of None \<Rightarrow> Some PNone | Some v \<Rightarrow> Some v)
     else map_of d k)"
  by (auto simp: fix_dict_def map_of_fix_region_type map_of_fill_missing split: option.splits pyval.splits)

lemma fix_dict_idem: "fix_dict (fix_dict d) = fix_dict d"
proof -
  let ?e = "fix_dict d"
  have "fill_missing ''instance_key'' (fill_missing ''region_key'' (fill_missing ''region'' ?e)) = ?e"
    by (simp add: fill_missing_present map_of_fix_dict split: option.splits pyval.splits)
  moreover have "fix_region_type ?e = ?e"
    by (rule fix_region_type_plain) (simp add: map_of_fix_dict tolist_not_ndarray split: option.splits pyval.splits)
  ultimately show ?thesis by (simp add: fix_dict_def[of "fix_dict d"])
qed

lemma keys_fill_missing:
  "map fst (fill_missing k d) = (if k \<in> fst ` set d then map fst d else map fst d @ [k])"
  by (auto simp: fill_missing_def keys_dict_set map_of_eq_None_iff)

lemma keyset_fill_missing: "fst ` set (fill_missing k d) = insert k (fst ` set d)"
proof -
  have "set (map fst (fill_missing k d)) = insert k (set (map fst d))"
    unfolding keys_fill_missing by auto
  then show ?thesis by simp
qed

lemma keys_fix_region_type: "map fst (fix_region_type d) = map fst d"
  by (auto simp: fix_region_type_def keys_dict_set split: option.splits pyval.splits dest: map_of_SomeD intro: rev_image_eqI)

lemma keys_fix_dict:
  "map fst (fix_dict d) =
     map fst d @ filter (\<lambda>k. k \<notin> fst ` set d) [''region'', ''region_key'', ''instance_key'']"
  by (simp add: fix_dict_def keys_fix_region_type keys_fill_missing keyset_fill_missing)

lemma normalize_table_absent: "map_of (uns t) key = None \<Longrightarrow> normalize_table key t = Inr t"
  by (simp add: normalize_table_def)

lemma normalize_table_dict:
  "map_of (uns t) key = Some (PDict d) \<Longrightarrow>
   normalize_table key t = Inr (t\<lparr>uns := dict_set (uns t) key (PDict (fix_dict d))\<rparr>)"
  by (simp add: normalize_table_def fix_attrs_dict)

lemma normalize_table_not_dict:
  assumes "map_of (uns t) key = Some attrs" and "\<And>d. attrs \<noteq> PDict d"
  shows "\<exists>e. normalize_table key t = Inl e"
proof -
  from fix_attrs_not_dict[OF assms(2)] obtain e where "fix_attrs attrs = Inl e" ..
  with assms(1) show ?thesis by (simp add: normalize_table_def)
qed

text \<open>
  Claim C6. When the \<^verbatim>\<open>uns\<close> block of a loaded table holds the attribute group (a dict)
  under the fixed key, the repair succeeds and afterwards the three keys \<^verbatim>\<open>region\<close>,
  \<^verbatim>\<open>region_key\<close> and \<^verbatim>\<open>instance_key\<close> are all present in it, each one that was
  missing now holding \<^verbatim>\<open>None\<close>, whichever of them were missing. When the key is absent
  the table is returned as it was.
\<close>
theorem normalize_table_completes_keys:
  "(map_of (uns t) key = None \<longrightarrow> normalize_table key t = Inr t) \<and>
   (map_of (uns t) key = Some (PDict d) \<longrightarrow>
      (\<exists>t' d'. normalize_table key t = Inr t' \<and> map_of (uns t') key = Some (PDict d') \<and>
         (\<forall>k \<in> {''region'', ''region_key'', ''instance_key''}.
            map_of d' k \<noteq> None \<and> (map_of d k = None \<longrightarrow> map_of d' k = Some PNone))))"
proof (intro conjI impI)
  assume "map_of (uns t) key = None"
  then show "normalize_table key t = Inr t" by (rule normalize_table_absent)
next
  assume h: "map_of (uns t) key = Some (PDict d)"
  let ?t = "t\<lparr>uns := dict_set (uns t) key (PDict (fix_dict d))\<rparr>"
  have a: "normalize_table key t = Inr ?t" using h by (rule normalize_table_dict)
  have b: "map_of (uns ?t) key = Some (PDict (fix_dict d))" by (simp add: map_of_dict_set)
  have c: "\<forall>k \<in> {''region'', ''region_key'', ''instance_key''}.
            map_of (fix_dict d) k \<noteq> None \<and> (map_of d k = None \<longrightarrow> map_of (fix_dict d) k = Some PNone)"
    by (simp add: map_of_fix_dict split: option.splits pyval.splits)
  show "\<exists>t' d'. normalize_table key t = Inr t' \<and> map_of (uns t') key = Some (PDict d') \<and>
         (\<forall>k \<in> {''region'', ''region_key'', ''instance_key''}.
            map_of d' k \<noteq> None \<and> (map_of d k = None \<longrightarrow> map_of d' k = Some PNone))"
    by (rule exI[of _ ?t], rule exI[of _ "fix_dict d"]) (intro conjI a b c)
qed


theorem normalize_table_completes_keys_witness:
  "map_of (uns scenario_C_table) ''spatialdata_attrs'' = Some (PDict [(''region_key'', PStr ''cell_ID'')]) \<and>
   (\<exists>t' d'. normalize_table ''spatialdata_attrs'' scenario_C_table = Inr t' \<and>
      map_of (uns t') ''spatialdata_attrs'' = Some (PDict d') \<and>
      (\<forall>k \<in> {''region'', ''region_key'', ''instance_key''}.
         map_of d' k \<noteq> None \<and>
         (map_of [(''region_key'', PStr ''cell_ID'' :: nat pyval)] k = None \<longrightarrow>
            map_of d' k = Some PNone)))"
proof -
  have h: "map_of (uns scenario_C_table) ''spatialdata_attrs'' = Some (PDict [(''region_key'', PStr ''cell_ID'')])"
    by (simp add: scenario_C_table_def)
  show ?thesis
    using h normalize_table_completes_keys [of scenario_C_table "''spatialdata_attrs''"
        "[(''region_key'', PStr ''cell_ID'')]", THEN conjunct2, THEN mp, OF h]
    by (rule conjI)
qed

text \<open>End-to-end scenario C of the specification, evaluated.\<close>

lemma scenario_C:
  "normalize_table ''spatialdata_attrs'' scenario_C_table =
     Inr \<lparr>ad_X = [[1, 2], [3, 4]],
          uns = [(''spatialdata_attrs'',
                  PDict [(''region_key'', PStr ''cell_ID''), (''region'', PNone), (''instance_key'', PNone)])]\<rparr>"
  by (simp add: normalize_table_def scenario_C_table_def fix_attrs_def fix_dict_def fill_missing_def
      fix_region_type_def)

text \<open>
  Claim C7. The repair is idempotent: running it on its own result gives that result
  again (and where it raises, it raises). A region stored as a one-dimensional numpy array
  becomes the plain list of its items, in order; a region that is already a plain list is
  kept as it is.
\<close>
theorem normalize_table_idempotent:
  "and_then (normalize_table key t) (normalize_table key) = normalize_table key t \<and>
   (map_of (uns t) key = Some (PDict d) \<longrightarrow>
    map_of d ''region'' = Some (PNdarray (Axis (map Item ss))) \<longrightarrow>
      (\<exists>t' d'. normalize_table key t = Inr t' \<and> map_of (uns t') key = Some (PDict d') \<and>
         map_of d' ''region'' = Some (PList (map scalar_value ss)))) \<and>
   (map_of (uns t) key = Some (PDict d) \<longrightarrow>
    map_of d ''region'' = Some (PList xs) \<longrightarrow>
      (\<exists>t' d'. normalize_table key t = Inr t' \<and> map_of (uns t') key = Some (PDict d') \<and>
         map_of d' ''region'' = Some (PList xs)))"
proof (intro conjI impI)
  show "and_then (normalize_table key t) (normalize_table key) = normalize_table key t"
  proof (cases "map_of (uns t) key")
    case None
    then show ?thesis by (simp add: normalize_table_absent)
  next
    case (Some attrs)
    show ?thesis
    proof (cases "\<exists>e. attrs = PDict e")
      case True
      then obtain e where e: "attrs = PDict e" by blast
      have "map_of (dict_set (uns t) key (PDict (fix_dict e))) key = Some (PDict (fix_dict e))"
        by (simp add: map_of_dict_set)
      then show ?thesis using Some e
        by (simp add: normalize_table_dict fix_dict_idem dict_set_same)
    next
      case False
      then have "\<exists>e. normalize_table key t = Inl e"
        using Some by (intro normalize_table_not_dict) auto
      then obtain e where "normalize_table key t = Inl e" ..
      then show ?thesis by simp
    qed
  qed
next
  assume h: "map_of (uns t) key = Some (PDict d)"
    and r: "map_of d ''region'' = Some (PNdarray (Axis (map Item ss)))"
  let ?t = "t\<lparr>uns := dict_set (uns t) key (PDict (fix_dict d))\<rparr>"
  have "normalize_table key t = Inr ?t" using h by (rule normalize_table_dict)
  moreover have "map_of (uns ?t) key = Some (PDict (fix_dict d))" by (simp add: map_of_dict_set)
  moreover have "map_of (fix_dict d) ''region'' = Some (PList (map scalar_value ss))"
    using r by (simp add: map_of_fix_dict)
  ultimately show "\<exists>t' d'. normalize_table key t = Inr t' \<and> map_of (uns t') key = Some (PDict d') \<and>
         map_of d' ''region'' = Some (PList (map scalar_value ss))"
    by blast
next
  assume h: "map_of (uns t) key = Some (PDict d)"
    and r: "map_of d ''region'' = Some (PList xs)"
  let ?t = "t\<lparr>uns := dict_set (uns t) key (PDict (fix_dict d))\<rparr>"
  have "normalize_table key t = Inr ?t" using h by (rule normalize_table_dict)
  moreover have "map_of (uns ?t) key = Some (PDict (fix_dict d))" by (simp add: map_of_dict_set)
  moreover have "map_of (fix_dict d) ''region'' = Some (PList xs)"
    using r by (simp add: map_of_fix_dict)
  ultimately show "\<exists>t' d'. normalize_table key t = Inr t' \<and> map_of (uns t') key = Some (PDict d') \<and>
         map_of d' ''region'' = Some (PList xs)"
    by blast
qed

theorem normalize_table_idempotent_witness:
  "map_of (uns array_region_table) ''spatialdata_attrs'' =
     Some (PDict [(''region'', PNdarray (Axis (map Item [SStr ''a'', SStr ''b'']))), (''extra'', PInt 5)]) \<and>
   (\<exists>t' d'. normalize_table ''spatialdata_attrs'' array_region_table = Inr t' \<and>
      map_of (uns t') ''spatialdata_attrs'' = Some (PDict d') \<and>
      map_of d' ''region'' = Some (PList [PStr ''a'', PStr ''b'']))"
proof -
  have h: "map_of (uns array_region_table) ''spatialdata_attrs'' =
     Some (PDict [(''region'', PNdarray (Axis (map Item [SStr ''a'', SStr ''b'']))), (''extra'', PInt 5)])"
    by (simp add: array_region_table_def)
  have r: "map_of [(''region'', PNdarray (Axis (map Item [SStr ''a'', SStr ''b'']))), (''extra'', PInt 5 :: nat pyval)]
              ''region'' = Some (PNdarray (Axis (map Item [SStr ''a'', SStr ''b''])))"
    by simp
  from normalize_table_idempotent [of "''spatialdata_attrs''" array_region_table, THEN conjunct2, THEN conjunct1,
      rule_format, OF h r]
  show ?thesis using h by simp
qed

text \<open>
  Claim C10. Frame of the repair when the attribute group is present: the repair succeeds,
  the row data and every other entry of \<^verbatim>\<open>uns\<close> are unchanged and \<^verbatim>\<open>uns\<close> keeps its
  keys in order; inside the attribute group every key other than \<^verbatim>\<open>region\<close>,
  \<^verbatim>\<open>region_key\<close>, \<^verbatim>\<open>instance_key\<close> keeps its value, every entry that was present keeps
  its value except a region held as a numpy array (which becomes its \<^verbatim>\<open>tolist()\<close>), and
  the only insertions are \<^verbatim>\<open>None\<close> for the missing ones of the three keys, appended
  after the existing keys.
\<close>

theorem normalize_table_frame:
  assumes "map_of (uns t) key = Some (PDict d)"
  shows "\<exists>t' d'. normalize_table key t = Inr t' \<and> ad_X t' = ad_X t \<and>
      map fst (uns t') = map fst (uns t) \<and>
      (\<forall>k. k \<noteq> key \<longrightarrow> map_of (uns t') k = map_of (uns t) k) \<and>
      map_of (uns t') key = Some (PDict d') \<and>
      (\<forall>a. a \<notin> {''region'', ''region_key'', ''instance_key''} \<longrightarrow> map_of d' a = map_of d a) \<and>
      (\<forall>a v. map_of d a = Some v \<longrightarrow> (\<forall>arr. \<not> (a = ''region'' \<and> v = PNdarray arr)) \<longrightarrow> map_of d' a = Some v) \<and>
      (\<forall>a. map_of d a = None \<longrightarrow> a \<in> {''region'', ''region_key'', ''instance_key''} \<longrightarrow> map_of d' a = Some PNone) \<and>
      (\<forall>arr. map_of d ''region'' = Some (PNdarray arr) \<longrightarrow> map_of d' ''region'' = Some (tolist arr)) \<and>
      map fst d' = map fst d @ filter (\<lambda>k. k \<notin> fst ` set d) [''region'', ''region_key'', ''instance_key'']"
proof -
  let ?t = "t\<lparr>uns := dict_set (uns t) key (PDict (fix_dict d))\<rparr>"
  have present: "key \<in> fst ` set (uns t)"
    using assms by (metis map_of_eq_None_iff option.distinct(1))
  have 1: "normalize_table key t = Inr ?t" using assms by (rule normalize_table_dict)
  have 2: "ad_X ?t = ad_X t" by simp
  have 3: "map fst (uns ?t) = map fst (uns t)" using present by (simp add: keys_dict_set)
  have 4: "\<forall>k. k \<noteq> key \<longrightarrow> map_of (uns ?t) k = map_of (uns t) k" by (simp add: map_of_dict_set)
  have 5: "map_of (uns ?t) key = Some (PDict (fix_dict d))" by (simp add: map_of_dict_set)
  have 6: "\<forall>a. a \<notin> {''region'', ''region_key'', ''instance_key''} \<longrightarrow> map_of (fix_dict d) a = map_of d a"
    by (simp add: map_of_fix_dict)
  have 7: "\<forall>a v. map_of d a = Some v \<longrightarrow> (\<forall>arr. \<not> (a = ''region'' \<and> v = PNdarray arr)) \<longrightarrow> map_of (fix_dict d) a = Some v"
    by (auto simp: map_of_fix_dict split: pyval.splits)
  have 8: "\<forall>a. map_of d a = None \<longrightarrow> a \<in> {''region'', ''region_key'', ''instance_key''} \<longrightarrow> map_of (fix_dict d) a = Some PNone"
    by (auto simp: map_of_fix_dict)
  have 9: "\<forall>arr. map_of d ''region'' = Some (PNdarray arr) \<longrightarrow> map_of (fix_dict d) ''region'' = Some (tolist arr)"
    by (simp add: map_of_fix_dict)
  show ?thesis
    by (rule exI[of _ ?t], rule exI[of _ "fix_dict d"]) (intro conjI 1 2 3 4 5 6 7 8 9 keys_fix_dict)
qed

theorem normalize_table_frame_witness:
  "map_of (uns array_region_table) ''spatialdata_attrs'' =
     Some (PDict [(''region'', PNdarray (Axis [Item (SStr ''a''), Item (SStr ''b'')])), (''extra'', PInt 5)]) \<and>
   (\<exists>t' d'. normalize_table ''spatialdata_attrs'' array_region_table = Inr t' \<and>
      ad_X t' = ad_X array_region_table \<and>
      map_of (uns t') ''other'' = map_of (uns array_region_table) ''other'' \<and>
      map_of (uns t') ''spatialdata_attrs'' = Some (PDict d') \<and>
      map_of d' ''extra'' = Some (PInt 5) \<and>
      map_of d' ''region'' = Some (PList [PStr ''a'', PStr ''b'']))"
proof -
  let ?d = "[(''region'', PNdarray (Axis [Item (SStr ''a''), Item (SStr ''b'')])), (''extra'', PInt 5 :: nat pyval)]"
  have h: "map_of (uns array_region_table) ''spatialdata_attrs'' = Some (PDict ?d)"
    by (simp add: array_region_table_def)
  from normalize_table_frame [OF h] obtain t' d' where
    r: "normalize_table ''spatialdata_attrs'' array_region_table = Inr t'" and
    x: "ad_X t' = ad_X array_region_table" and
    o: "\<forall>k. k \<noteq> ''spatialdata_attrs'' \<longrightarrow> map_of (uns t') k = map_of (uns array_region_table) k" and
    g: "map_of (uns t') ''spatialdata_attrs'' = Some (PDict d')" and
    e: "\<forall>a. a \<notin> {''region'', ''region_key'', ''instance_key''} \<longrightarrow> map_of d' a = map_of ?d a" and
    c: "\<forall>arr. map_of ?d ''region'' = Some (PNdarray arr) \<longrightarrow> map_of d' ''region'' = Some (tolist arr)"
    by (elim exE conjE)
  from o have o': "map_of (uns t') ''other'' = map_of (uns array_region_table) ''other''" by simp
  from e have e': "map_of d' ''extra'' = Some (PInt 5)" by simp
  from c have c': "map_of d' ''region'' = Some (PList [PStr ''a'', PStr ''b''])" by simp
  show ?thesis
    by (rule conjI[OF h], rule exI[of _ t'], rule exI[of _ d']) (intro conjI r x o' g e' c')
qed

section \<open>Properties of the multiscale assembly\<close>






lemma and_then_Inr: "and_then m f = Inr y \<longleftrightarrow> (\<exists>x. m = Inr x \<and> f x = Inr y)"
  by (cases m) auto








lemma read_multiscale_unfold:
  assumes "load_Multiscales (specs nd) = Some ds"
    and "parse_transformations dec nd = Inr ts"
    and "node_axes nd = Inr ax"
  shows "read_multiscale dec nd =
     (if length ts \<noteq> length ds then Inl AssertionError
      else if length ds > 1 then
        and_then (build_pyramid nd ax 0 (zip ts ds) []) (\<lambda>m. Inr (MultiscaleSpatialImage m))
      else (case ts of [] \<Rightarrow> Inl IndexError
            | t # ts' \<Rightarrow> (case ds of [] \<Rightarrow> Inl IndexError
                           | d # ds' \<Rightarrow>
                               and_then (array_at nd d) (\<lambda>data.
                               and_then (new_DataArray data (md_name nd) ax [(''transform'', PObj t)])
                                 (\<lambda>a. Inr (SpatialImage a))))))"
  using assms by (simp add: read_multiscale_def)

lemma read_multiscale_single:
  assumes "load_Multiscales (specs nd) = Some [d]"
    and "parse_transformations dec nd = Inr [t]"
    and "node_axes nd = Inr ax"
    and "map_of (level_arrays nd) d = Some a"
    and "length (arr_shape a) = length ax"
  shows "read_multiscale dec nd =
     Inr (SpatialImage
       \<lparr>da_data = a, da_name = (if md_name nd = PNone then PStr (arr_name a) else md_name nd),
        da_dims = ax, da_attrs = [(''transform'', PObj t)]\<rparr>)"
  using assms(4,5)
  by (simp add: read_multiscale_unfold[OF assms(1-3)] array_at_def new_DataArray_def)







lemmas node_eval = parse_transformations_def node_axes_def example_decoder_def cyx_axes_def

lemma image_node_parts:
  "load_Multiscales (specs image_node) = Some [''0'']"
  "parse_transformations example_decoder image_node = Inr [1]"
  "node_axes image_node = Inr [PStr ''c'', PStr ''y'', PStr ''x'']"
  by (simp_all add: image_node_def node_eval)








text \<open>
  Claim C2. A node with a multiscale spec and no label spec is read and stored in
  \<^verbatim>\<open>images\<close> by the image loop and skipped by the label loop; a node with both is read and
  stored in \<^verbatim>\<open>labels\<close> by the label loop and skipped by the image loop; a node without a
  multiscale spec, with or without a label spec, is skipped by both without an error.
\<close>
theorem node_classification:
  "((\<exists>ds. Multiscales ds \<in> set (specs nd)) \<and> Label \<notin> set (specs nd) \<longrightarrow>
      read_image_node dec k nd images =
        and_then (read_multiscale dec nd) (\<lambda>el. Inr (dict_set images k el)) \<and>
      (\<forall>el. read_multiscale dec nd = Inr el \<longrightarrow>
         (\<exists>images'. read_image_node dec k nd images = Inr images' \<and> map_of images' k = Some el)) \<and>
      read_label_node dec k nd labels = Inr labels) \<and>
   ((\<exists>ds. Multiscales ds \<in> set (specs nd)) \<and> Label \<in> set (specs nd) \<longrightarrow>
      read_label_node dec k nd labels =
        and_then (read_multiscale dec nd) (\<lambda>el. Inr (dict_set labels k el)) \<and>
      (\<forall>el. read_multiscale dec nd = Inr el \<longrightarrow>
         (\<exists>labels'. read_label_node dec k nd labels = Inr labels' \<and> map_of labels' k = Some el)) \<and>
      read_image_node dec k nd images = Inr images) \<and>
   (\<not> (\<exists>ds. Multiscales ds \<in> set (specs nd)) \<longrightarrow>
      read_image_node dec k nd images = Inr images \<and> read_label_node dec k nd labels = Inr labels)"
proof -
  have ism: "isMultiscales s = (\<exists>ds. s = Multiscales ds)" for s by (cases s) auto
  have ms: "list_ex isMultiscales (specs nd) = (\<exists>ds. Multiscales ds \<in> set (specs nd))"
    by (auto simp: list_ex_iff ism)
  have isl: "isLabel s = (s = Label)" for s by (cases s) auto
  have lb: "list_ex isLabel (specs nd) = (Label \<in> set (specs nd))"
    by (simp add: list_ex_iff isl)
  have nlb: "list_all (\<lambda>s. \<not> isLabel s) (specs nd) = (Label \<notin> set (specs nd))"
    by (auto simp: list_all_iff isl)
  have it: "image_test nd = ((\<exists>ds. Multiscales ds \<in> set (specs nd)) \<and> Label \<notin> set (specs nd))"
    by (simp only: image_test_def ms nlb)
  have lt: "label_test nd = ((\<exists>ds. Multiscales ds \<in> set (specs nd)) \<and> Label \<in> set (specs nd))"
    by (simp only: label_test_def ms lb)
  show ?thesis
    by (simp add: read_image_node_def read_label_node_def it lt map_of_dict_set)
qed

theorem node_classification_witness:
  "(\<exists>images'. read_image_node example_decoder ''fov0'' image_node [] = Inr images' \<and>
      map_of images' ''fov0'' =
        Some (SpatialImage
          \<lparr>da_data = \<lparr>arr_name = ''from-zarr-img0'', arr_shape = [3, 64, 64]\<rparr>,
           da_name = PStr ''img'',
           da_dims = [PStr ''c'', PStr ''y'', PStr ''x''],
           da_attrs = [(''transform'', PObj 1)]\<rparr>)) \<and>
   read_label_node example_decoder ''fov0'' image_node [] = Inr [] \<and>
   read_label_node example_decoder ''fov0'' labels_node [] =
     and_then (read_multiscale example_decoder labels_node) (\<lambda>el. Inr (dict_set [] ''fov0'' el)) \<and>
   read_image_node example_decoder ''fov0'' labels_node [] = Inr [] \<and>
   read_image_node example_decoder ''fov0'' plain_node [] = Inr [] \<and>
   read_label_node example_decoder ''fov0'' plain_node [] = Inr []"
proof -
  have m: "\<exists>ds. Multiscales ds \<in> set (specs image_node)" by (simp add: image_node_def)
  have l: "Label \<notin> set (specs image_node)" by (simp add: image_node_def)
  have arr: "map_of (level_arrays image_node) ''0'' =
      Some \<lparr>arr_name = ''from-zarr-img0'', arr_shape = [3, 64, 64]\<rparr>"
    by (simp add: image_node_def)
  have rank: "length (arr_shape \<lparr>arr_name = ''from-zarr-img0'', arr_shape = [3, 64, 64]\<rparr>) =
      length [PStr ''c'', PStr ''y'', PStr ''x'' :: nat pyval]" by simp
  have r: "read_multiscale example_decoder image_node =
     Inr (SpatialImage
          \<lparr>da_data = \<lparr>arr_name = ''from-zarr-img0'', arr_shape = [3, 64, 64]\<rparr>,
           da_name = PStr ''img'',
           da_dims = [PStr ''c'', PStr ''y'', PStr ''x''],
           da_attrs = [(''transform'', PObj 1)]\<rparr>)"
    using read_multiscale_single[OF image_node_parts arr rank] by (simp add: image_node_def)
  have m2: "\<exists>ds. Multiscales ds \<in> set (specs labels_node)" by (simp add: labels_node_def)
  have l2: "Label \<in> set (specs labels_node)" by (simp add: labels_node_def)
  have n3: "\<not> (\<exists>ds. Multiscales ds \<in> set (specs plain_node))" by (simp add: plain_node_def)
  note c = node_classification[where dec = example_decoder and k = "''fov0''" and images = "[]" and labels = "[]"]
  from c[of image_node, THEN conjunct1, THEN mp, OF conjI[OF m l]] r
  have a: "(\<exists>images'. read_image_node example_decoder ''fov0'' image_node [] = Inr images' \<and>
      map_of images' ''fov0'' =
        Some (SpatialImage
          \<lparr>da_data = \<lparr>arr_name = ''from-zarr-img0'', arr_shape = [3, 64, 64]\<rparr>,
           da_name = PStr ''img'',
           da_dims = [PStr ''c'', PStr ''y'', PStr ''x''],
           da_attrs = [(''transform'', PObj 1)]\<rparr>)) \<and>
      read_label_node example_decoder ''fov0'' image_node [] = Inr []"
    by blast
  from c[of labels_node, THEN conjunct2, THEN conjunct1, THEN mp, OF conjI[OF m2 l2]]
  have b: "read_label_node example_decoder ''fov0'' labels_node [] =
     and_then (read_multiscale example_decoder labels_node) (\<lambda>el. Inr (dict_set [] ''fov0'' el)) \<and>
     read_image_node example_decoder ''fov0'' labels_node [] = Inr []"
    by blast
  from c[of plain_node, THEN conjunct2, THEN conjunct2, THEN mp, OF n3]
  have d: "read_image_node example_decoder ''fov0'' plain_node [] = Inr [] \<and>
     read_label_node example_decoder ''fov0'' plain_node [] = Inr []" .
  from a b d show ?thesis by (simp only: conj_assoc)
qed

section \<open>Properties of the traversal\<close>

lemma for_each_invariant:
  assumes "for_each body xs s = Inr s'" and "P s"
    and "\<And>x a b. x \<in> set xs \<Longrightarrow> body x a = Inr b \<Longrightarrow> P a \<Longrightarrow> P b"
  shows "P s'"
  using assms
proof (induction xs arbitrary: s)
  case Nil
  then show ?case by simp
next
  case (Cons x xs)
  from Cons.prems(1) obtain s1 where s1: "body x s = Inr s1" and rest: "for_each body xs s1 = Inr s'"
    by (auto simp: and_then_Inr)
  have p1: "P s1" using s1 Cons.prems(2) by (intro Cons.prems(3)[of x s s1]) simp_all
  show ?case
  proof (rule Cons.IH[OF rest p1])
    fix y a b
    assume "y \<in> set xs" and "body y a = Inr b" and "P a"
    then show "P b" using Cons.prems(3)[of y a b] by simp
  qed
qed

lemma for_each_fails:
  assumes "x \<in> set xs" and "\<And>a. \<exists>e. body x a = Inl e"
  shows "\<exists>e. for_each body xs s = Inl e"
  using assms(1)
proof (induction xs arbitrary: s)
  case Nil
  then show ?case by simp
next
  case (Cons y ys)
  show ?case
  proof (cases "body y s")
    case (Inl e)
    then show ?thesis by simp
  next
    case (Inr s1)
    show ?thesis
    proof (cases "x = y")
      case True
      with assms(2)[of s] Inr show ?thesis by simp
    next
      case False
      with Cons.prems have "x \<in> set ys" by simp
      from Cons.IH[OF this, of s1] Inr show ?thesis by simp
    qed
  qed
qed

lemma read_child_points:
  "read_child env store k ''points'' st =
     and_then (read_points env (store @ ''/'' @ k @ ''/points'' @ ''/'' @ k))
       (\<lambda>p. Inr (st\<lparr>sd_points := dict_set (sd_points st) k p\<rparr>))"
  by (cases "read_points env (store @ ''/'' @ k @ ''/points'' @ ''/'' @ k)")
     (simp_all add: read_child_def)

lemma read_child_polygons:
  "read_child env store k ''polygons'' st =
     and_then (read_polygons env (store @ ''/'' @ k @ ''/polygons'' @ ''/'' @ k))
       (\<lambda>p. Inr (st\<lparr>sd_polygons := dict_set (sd_polygons st) k p\<rparr>))"
  by (cases "read_polygons env (store @ ''/'' @ k @ ''/polygons'' @ ''/'' @ k)")
     (simp_all add: read_child_def)

lemma read_child_shapes:
  "read_child env store k ''shapes'' st =
     and_then (read_shapes env (store @ ''/'' @ k @ ''/shapes'' @ ''/'' @ k))
       (\<lambda>p. Inr (st\<lparr>sd_shapes := dict_set (sd_shapes st) k p\<rparr>))"
  by (cases "read_shapes env (store @ ''/'' @ k @ ''/shapes'' @ ''/'' @ k)")
     (simp_all add: read_child_def)

lemma read_child_table:
  "read_child env store k ''table'' st =
     and_then (load_table env (store @ ''/'' @ k @ ''/table''))
       (\<lambda>t. Inr (st\<lparr>sd_table := Some t\<rparr>))"
  by (simp add: read_child_def)

lemma read_child_other:
  "j \<noteq> ''points'' \<Longrightarrow> j \<noteq> ''polygons'' \<Longrightarrow> j \<noteq> ''shapes'' \<Longrightarrow> j \<noteq> ''table'' \<Longrightarrow>
   read_child env store k j st = Inr st"
  by (simp add: read_child_def)

lemma read_child_cases:
  obtains "j = ''points''" | "j = ''polygons''" | "j = ''shapes''" | "j = ''table''"
  | "j \<noteq> ''points''" "j \<noteq> ''polygons''" "j \<noteq> ''shapes''" "j \<noteq> ''table''"
  by blast

lemma read_child_frame:
  assumes "read_child env store k j st = Inr st'"
  shows "sd_images st' = sd_images st \<and> sd_labels st' = sd_labels st \<and>
         (j \<noteq> ''table'' \<longrightarrow> sd_table st' = sd_table st)"
proof (cases j rule: read_child_cases)
  case 1
  with assms show ?thesis by (auto simp: read_child_points and_then_Inr)
next
  case 2
  with assms show ?thesis by (auto simp: read_child_polygons and_then_Inr)
next
  case 3
  with assms show ?thesis by (auto simp: read_child_shapes and_then_Inr)
next
  case 4
  with assms show ?thesis by (auto simp: read_child_table and_then_Inr)
next
  case 5
  with assms show ?thesis by (simp add: read_child_other)
qed

lemma read_images_step_frame:
  assumes "read_images_step env p k st = Inr st'"
  shows "sd_labels st' = sd_labels st \<and> sd_table st' = sd_table st"
  using assms by (auto simp: read_images_step_def and_then_Inr)

lemma read_labels_step_frame:
  assumes "read_labels_step env p k st = Inr st'"
  shows "sd_images st' = sd_images st \<and> sd_table st' = sd_table st"
  using assms by (auto simp: read_labels_step_def and_then_Inr split: if_splits)

lemma read_label_node_other:
  assumes "read_label_node dec k' nd l = Inr l'" and "k \<noteq> k'"
  shows "map_of l' k = map_of l k"
  using assms by (auto simp: read_label_node_def and_then_Inr map_of_dict_set split: if_splits)

lemma read_labels_step_other:
  assumes "read_labels_step env p k' st = Inr st'" and "k \<noteq> k'"
  shows "map_of (sd_labels st') k = map_of (sd_labels st) k"
proof (cases "loc_exists env (p @ ''/labels'')")
  case False
  with assms show ?thesis by (simp add: read_labels_step_def)
next
  case True
  with assms obtain l where l: "for_each (read_label_node (get_transformation_from_dict env) k')
                (reader_nodes env (p @ ''/labels'')) (sd_labels st) = Inr l"
    and st': "st' = st\<lparr>sd_labels := l\<rparr>"
    by (auto simp: read_labels_step_def and_then_Inr)
  have "map_of l k = map_of (sd_labels st) k"
    using l
  proof (rule for_each_invariant)
    show "map_of (sd_labels st) k = map_of (sd_labels st) k" ..
  next
    fix x a b
    assume "read_label_node (get_transformation_from_dict env) k' x a = Inr b"
      and "map_of a k = map_of (sd_labels st) k"
    then show "map_of b k = map_of (sd_labels st) k"
      using read_label_node_other[of _ k' x a b k] assms(2) by simp
  qed
  then show ?thesis by (simp add: st')
qed

lemma read_children_frame:
  assumes "for_each (read_child env store k) js st = Inr st'"
  shows "sd_images st' = sd_images st \<and> sd_labels st' = sd_labels st"
  using assms
proof (rule for_each_invariant)
  show "sd_images st = sd_images st \<and> sd_labels st = sd_labels st" by simp
next
  fix x a b
  assume "read_child env store k x a = Inr b"
    and "sd_images a = sd_images st \<and> sd_labels a = sd_labels st"
  then show "sd_images b = sd_images st \<and> sd_labels b = sd_labels st"
    using read_child_frame[of env store k x a b] by simp
qed

lemma read_children_table:
  assumes "for_each (read_child env store k) js st = Inr st'"
  shows "if ''table'' \<in> set js
         then \<exists>t. load_table env (store @ ''/'' @ k @ ''/table'') = Inr t \<and> sd_table st' = Some t
         else sd_table st' = sd_table st"
  using assms
proof (induction js arbitrary: st)
  case Nil
  then show ?case by simp
next
  case (Cons j js)
  from Cons.prems obtain s1 where s1: "read_child env store k j st = Inr s1"
    and rest: "for_each (read_child env store k) js s1 = Inr st'"
    by (auto simp: and_then_Inr)
  note ih = Cons.IH[OF rest]
  show ?case
  proof (cases "''table'' \<in> set js")
    case True
    with ih show ?thesis by simp
  next
    case False
    with ih have same: "sd_table st' = sd_table s1" by simp
    show ?thesis
    proof (cases "j = ''table''")
      case True
      with s1 obtain t where "load_table env (store @ ''/'' @ k @ ''/table'') = Inr t"
        and "s1 = st\<lparr>sd_table := Some t\<rparr>"
        by (auto simp: read_child_table and_then_Inr)
      with same True show ?thesis by simp
    next
      case nt: False
      with read_child_frame[OF s1] have "sd_table s1 = sd_table st" by simp
      with same nt False show ?thesis by simp
    qed
  qed
qed

lemma read_group_Inr:
  assumes "read_group env store k st = Inr st'"
  obtains st1 st2 g where
    "read_images_step env (store @ ''/'' @ k) k st = Inr st1"
    "read_labels_step env (store @ ''/'' @ k) k st1 = Inr st2"
    "zarr_open env (store @ ''/'' @ k) = Some g"
    "for_each (read_child env store k) (g_keys g) st2 = Inr st'"
  using assms
  by (auto simp: read_group_def read_rest_step_def group_keys_def and_then_Inr
      split: option.splits if_splits)

lemma read_group_table:
  assumes "read_group env store k st = Inr st'"
  shows "case zarr_open env (store @ ''/'' @ k) of
           None \<Rightarrow> False
         | Some g \<Rightarrow>
             if ''table'' \<in> set (g_keys g)
             then \<exists>t. load_table env (store @ ''/'' @ k @ ''/table'') = Inr t \<and> sd_table st' = Some t
             else sd_table st' = sd_table st"
proof -
  from assms obtain st1 st2 g where
    1: "read_images_step env (store @ ''/'' @ k) k st = Inr st1" and
    2: "read_labels_step env (store @ ''/'' @ k) k st1 = Inr st2" and
    g: "zarr_open env (store @ ''/'' @ k) = Some g" and
    3: "for_each (read_child env store k) (g_keys g) st2 = Inr st'"
    by (rule read_group_Inr)
  have "sd_table st2 = sd_table st"
    using read_images_step_frame[OF 1] read_labels_step_frame[OF 2] by simp
  with read_children_table[OF 3] g show ?thesis by (simp split: if_splits)
qed

lemma read_group_labels_other:
  assumes "read_group env store k' st = Inr st'" and "k \<noteq> k'"
  shows "map_of (sd_labels st') k = map_of (sd_labels st) k"
proof -
  from assms(1) obtain st1 st2 g where
    1: "read_images_step env (store @ ''/'' @ k') k' st = Inr st1" and
    2: "read_labels_step env (store @ ''/'' @ k') k' st1 = Inr st2" and
    g: "zarr_open env (store @ ''/'' @ k') = Some g" and
    3: "for_each (read_child env store k') (g_keys g) st2 = Inr st'"
    by (rule read_group_Inr)
  show ?thesis
    using read_images_step_frame[OF 1] read_labels_step_other[OF 2 assms(2)]
      read_children_frame[OF 3] by simp
qed

lemma read_group_labels_absent:
  assumes "read_group env store k st = Inr st'"
    and "\<not> loc_exists env (store @ ''/'' @ k @ ''/labels'')"
  shows "sd_labels st' = sd_labels st"
proof -
  from assms(1) obtain st1 st2 g where
    1: "read_images_step env (store @ ''/'' @ k) k st = Inr st1" and
    2: "read_labels_step env (store @ ''/'' @ k) k st1 = Inr st2" and
    g: "zarr_open env (store @ ''/'' @ k) = Some g" and
    3: "for_each (read_child env store k) (g_keys g) st2 = Inr st'"
    by (rule read_group_Inr)
  have "st2 = st1" using 2 assms(2) by (simp add: read_labels_step_def)
  then show ?thesis
    using read_images_step_frame[OF 1] read_children_frame[OF 3] by simp
qed

lemma read_groups_table:
  assumes "for_each (read_group env store) ks st = Inr st'"
  shows "case filter (\<lambda>k. case zarr_open env (store @ ''/'' @ k) of
                            None \<Rightarrow> False | Some g \<Rightarrow> ''table'' \<in> set (g_keys g)) ks of
           [] \<Rightarrow> sd_table st' = sd_table st
         | k # tk \<Rightarrow> \<exists>t. load_table env (store @ ''/'' @ last (k # tk) @ ''/table'') = Inr t \<and>
                         sd_table st' = Some t"
  using assms
proof (induction ks arbitrary: st)
  case Nil
  then show ?case by simp
next
  case (Cons k ks)
  let ?has = "\<lambda>k. case zarr_open env (store @ ''/'' @ k) of
                     None \<Rightarrow> False | Some g \<Rightarrow> ''table'' \<in> set (g_keys g)"
  from Cons.prems obtain s1 where s1: "read_group env store k st = Inr s1"
    and rest: "for_each (read_group env store) ks s1 = Inr st'"
    by (auto simp: and_then_Inr)
  note ih = Cons.IH[OF rest]
  note hd = read_group_table[OF s1]
  show ?case
  proof (cases "filter ?has ks")
    case Nil
    with ih have same: "sd_table st' = sd_table s1" by simp
    show ?thesis
    proof (cases "?has k")
      case True
      with hd obtain t where "load_table env (store @ ''/'' @ k @ ''/table'') = Inr t"
        and "sd_table s1 = Some t"
        by (auto split: option.splits if_splits)
      with same True Nil show ?thesis by simp
    next
      case False
      with hd have "sd_table s1 = sd_table st" by (auto split: option.splits if_splits)
      with same False Nil show ?thesis by simp
    qed
  next
    case (Cons k' tk)
    with ih obtain t where t: "load_table env (store @ ''/'' @ last (k' # tk) @ ''/table'') = Inr t"
      "sd_table st' = Some t" by auto
    show ?thesis
    proof (cases "?has k")
      case True
      with Cons t show ?thesis by simp
    next
      case False
      with Cons t show ?thesis by simp
    qed
  qed
qed

lemma example_read: "read_zarr (example_env good_polygons) ''data.zarr'' = Inr example_dataset"
  by code_simp

lemma example_root:
  "zarr_open (example_env good_polygons) ''data.zarr'' =
     Some \<lparr>g_keys = [''a'', ''b''], g_attrs = [], g_arrays = []\<rparr>"
  by (simp add: example_env_def)

text \<open>
  Claim C8. The returned dataset has a single table slot. When \<^verbatim>\<open>read_zarr\<close> succeeds,
  that slot holds the (repaired) table of the last top-level group, in the order of
  \<^verbatim>\<open>f.keys()\<close>, whose members include \<^verbatim>\<open>table\<close>; the tables of the earlier such groups
  are gone, without an error. When no group has a table the slot is \<^verbatim>\<open>None\<close>.
\<close>
theorem last_table_wins:
  assumes "zarr_open env store = Some f"
    and "read_zarr env store = Inr sd"
  shows "case filter (\<lambda>k. case zarr_open env (store @ ''/'' @ k) of
                            None \<Rightarrow> False | Some g \<Rightarrow> ''table'' \<in> set (g_keys g)) (g_keys f) of
           [] \<Rightarrow> sd_table sd = None
         | k # tk \<Rightarrow> \<exists>t. load_table env (store @ ''/'' @ last (k # tk) @ ''/table'') = Inr t \<and>
                         sd_table sd = Some t"
proof -
  from assms have "for_each (read_group env store) (g_keys f) initial = Inr sd"
    by (simp add: read_zarr_def group_keys_def)
  note tab = read_groups_table[OF this]
  show ?thesis
  proof (cases "filter (\<lambda>k. case zarr_open env (store @ ''/'' @ k) of
                            None \<Rightarrow> False | Some g \<Rightarrow> ''table'' \<in> set (g_keys g)) (g_keys f)")
    case Nil
    with tab show ?thesis by (simp add: initial_def)
  next
    case (Cons k tk)
    with tab show ?thesis by simp
  qed
qed

theorem last_table_wins_witness:
  "zarr_open (example_env good_polygons) ''data.zarr'' =
     Some \<lparr>g_keys = [''a'', ''b''], g_attrs = [], g_arrays = []\<rparr> \<and>
   read_zarr (example_env good_polygons) ''data.zarr'' = Inr example_dataset \<and>
   (\<exists>t. load_table (example_env good_polygons) ''data.zarr/b/table'' = Inr t \<and>
        sd_table example_dataset = Some t)"
proof -
  have flt: "filter (\<lambda>k. case zarr_open (example_env good_polygons) (''data.zarr'' @ ''/'' @ k) of
                            None \<Rightarrow> False | Some g \<Rightarrow> ''table'' \<in> set (g_keys g))
               (g_keys \<lparr>g_keys = [''a'', ''b''], g_attrs = [], g_arrays = [] :: (string \<times> ndarray) list\<rparr>) = [''a'', ''b'']"
    by (simp add: example_env_def)
  from last_table_wins[OF example_root example_read]
  have "\<exists>t. load_table (example_env good_polygons) ''data.zarr/b/table'' = Inr t \<and>
        sd_table example_dataset = Some t"
    unfolding flt by simp
  with example_root example_read show ?thesis by simp
qed

text \<open>
  Claim C9. When the \<^verbatim>\<open>labels\<close> location of a top-level group does not exist, the labels
  step of that group returns without an error and without a change; the group is processed
  as its image step followed by the dispatch of its members; the group leaves \<^verbatim>\<open>labels\<close>
  as it found it, and a successful \<^verbatim>\<open>read_zarr\<close> has no entry for the group in \<^verbatim>\<open>labels\<close>.
\<close>
theorem missing_labels_tolerated:
  assumes "\<not> loc_exists env (store @ ''/'' @ k @ ''/labels'')"
  shows "read_labels_step env (store @ ''/'' @ k) k st = Inr st \<and>
         read_group env store k st =
           and_then (read_images_step env (store @ ''/'' @ k) k st) (read_rest_step env store k) \<and>
         (\<forall>st'. read_group env store k st = Inr st' \<longrightarrow> sd_labels st' = sd_labels st) \<and>
         (\<forall>sd. read_zarr env store = Inr sd \<longrightarrow> map_of (sd_labels sd) k = None)"
proof (intro conjI allI impI)
  show 1: "read_labels_step env (store @ ''/'' @ k) k st = Inr st"
    using assms by (simp add: read_labels_step_def)
  show "read_group env store k st =
           and_then (read_images_step env (store @ ''/'' @ k) k st) (read_rest_step env store k)"
  proof (cases "read_images_step env (store @ ''/'' @ k) k st")
    case (Inl e)
    then show ?thesis by (simp add: read_group_def)
  next
    case (Inr st1)
    have "read_labels_step env (store @ ''/'' @ k) k st1 = Inr st1"
      using assms by (simp add: read_labels_step_def)
    with Inr show ?thesis by (simp add: read_group_def)
  qed
next
  fix st'
  assume "read_group env store k st = Inr st'"
  then show "sd_labels st' = sd_labels st" using assms by (rule read_group_labels_absent)
next
  fix sd
  assume "read_zarr env store = Inr sd"
  then obtain keys where "for_each (read_group env store) keys initial = Inr sd"
    by (auto simp: read_zarr_def and_then_Inr)
  then show "map_of (sd_labels sd) k = None"
  proof (rule for_each_invariant)
    show "map_of (sd_labels initial) k = None" by (simp add: initial_def)
  next
    fix x a b
    assume step: "read_group env store x a = Inr b" and inv: "map_of (sd_labels a) k = None"
    show "map_of (sd_labels b) k = None"
    proof (cases "x = k")
      case True
      with step have "sd_labels b = sd_labels a" using assms by (simp add: read_group_labels_absent)
      with inv show ?thesis by simp
    next
      case False
      then have "k \<noteq> x" by simp
      from read_group_labels_other[OF step this] inv show ?thesis by simp
    qed
  qed
qed

theorem missing_labels_tolerated_witness:
  "\<not> loc_exists (example_env good_polygons) (''data.zarr'' @ ''/'' @ ''b'' @ ''/labels'') \<and>
   read_zarr (example_env good_polygons) ''data.zarr'' = Inr example_dataset \<and>
   map_of (sd_labels example_dataset) ''b'' = None \<and>
   map_of (sd_polygons example_dataset) ''b'' \<noteq> None"
proof -
  have h: "\<not> loc_exists (example_env good_polygons) (''data.zarr'' @ ''/'' @ ''b'' @ ''/labels'')"
    by (simp add: example_env_def)
  from missing_labels_tolerated[OF h, of initial, THEN conjunct2, THEN conjunct2, THEN conjunct2,
      rule_format, OF example_read]
  have "map_of (sd_labels example_dataset) ''b'' = None" .
  moreover have "map_of (sd_polygons example_dataset) ''b'' \<noteq> None"
    by (simp add: example_dataset_def)
  ultimately show ?thesis using h example_read by simp
qed

lemma read_polygons_unfold:
  assumes "zarr_open env path = Some f"
    and "polygons_arrays f = Inr arrays"
    and "polygons_type env f = Inr typ"
    and "polygons_name f = Inr gname"
  shows "read_polygons env path =
     (if PStr (snd typ) \<noteq> gname then Inl AssertionError
      else polygons_finish env f typ (fst arrays) (snd arrays))"
  using assms by (simp add: read_polygons_def open_group_def)

lemma geometry_type_member:
  "geometry_type env v = Inr (code, nm) \<Longrightarrow> GeometryType env code = Some nm"
  by (cases v) (auto simp: geometry_type_def split: option.splits if_splits)

lemma polygons_type_member:
  "polygons_type env f = Inr (code, nm) \<Longrightarrow> GeometryType env code = Some nm"
  by (auto simp: polygons_type_def and_then_Inr dest: geometry_type_member)

lemma read_group_aborts_polygons:
  assumes "zarr_open env (store @ ''/'' @ k) = Some g"
    and "''polygons'' \<in> set (g_keys g)"
    and "read_polygons env (store @ ''/'' @ k @ ''/polygons'' @ ''/'' @ k) = Inl e"
  shows "\<exists>e'. read_group env store k st = Inl e'"
proof (cases "read_images_step env (store @ ''/'' @ k) k st")
  case (Inl e1)
  then show ?thesis by (simp add: read_group_def)
next
  case (Inr st1)
  show ?thesis
  proof (cases "read_labels_step env (store @ ''/'' @ k) k st1")
    case (Inl e2)
    with Inr show ?thesis by (simp add: read_group_def)
  next
    case st2: (Inr st2)
    have "\<exists>e'. for_each (read_child env store k) (g_keys g) st2 = Inl e'"
      using assms(2)
    proof (rule for_each_fails)
      fix a
      show "\<exists>e'. read_child env store k ''polygons'' a = Inl e'"
        using assms(3) by (simp add: read_child_polygons)
    qed
    then obtain e' where "for_each (read_child env store k) (g_keys g) st2 = Inl e'" ..
    then have "read_rest_step env store k st2 = Inl e'"
      using assms(1) by (simp add: read_rest_step_def group_keys_def)
    with Inr st2 show ?thesis by (simp add: read_group_def)
  qed
qed

lemma read_zarr_aborts_polygons:
  assumes "zarr_open env store = Some f"
    and "k \<in> set (g_keys f)"
    and "zarr_open env (store @ ''/'' @ k) = Some g"
    and "''polygons'' \<in> set (g_keys g)"
    and "read_polygons env (store @ ''/'' @ k @ ''/polygons'' @ ''/'' @ k) = Inl e"
  shows "\<exists>e'. read_zarr env store = Inl e'"
proof -
  have "\<exists>e'. for_each (read_group env store) (g_keys f) initial = Inl e'"
    using assms(2)
  proof (rule for_each_fails)
    fix a
    show "\<exists>e'. read_group env store k a = Inl e'"
      using assms(3,4,5) by (rule read_group_aborts_polygons)
  qed
  then show ?thesis using assms(1) by (simp add: read_zarr_def group_keys_def)
qed

text \<open>
  Claim C4. For a polygons group whose arrays and whose \<^verbatim>\<open>geos\<close> attributes are readable:
  the name compared is the enum member's name for the stored code; when it differs from the
  stored \<^verbatim>\<open>geometry_name\<close>, \<^verbatim>\<open>_read_polygons\<close> raises AssertionError and every \<^verbatim>\<open>read_zarr\<close>
  that reaches this group through a top-level group fails as a whole; when they agree,
  \<^verbatim>\<open>_read_polygons\<close> continues with lines 175--183.
\<close>
theorem geometry_name_cross_check:
  assumes "zarr_open env path = Some f"
    and "polygons_arrays f = Inr arrays"
    and "polygons_type env f = Inr (code, nm)"
    and "polygons_name f = Inr gname"
  shows "GeometryType env code = Some nm \<and>
         (PStr nm \<noteq> gname \<longrightarrow>
            read_polygons env path = Inl AssertionError \<and>
            (\<forall>store k r g.
               path = store @ ''/'' @ k @ ''/polygons'' @ ''/'' @ k \<and>
               zarr_open env store = Some r \<and> k \<in> set (g_keys r) \<and>
               zarr_open env (store @ ''/'' @ k) = Some g \<and> ''polygons'' \<in> set (g_keys g) \<longrightarrow>
               (\<exists>e. read_zarr env store = Inl e))) \<and>
         (PStr nm = gname \<longrightarrow>
            read_polygons env path = polygons_finish env f (code, nm) (fst arrays) (snd arrays))"
proof (intro conjI impI allI)
  show "GeometryType env code = Some nm" using assms(3) by (rule polygons_type_member)
next
  assume "PStr nm \<noteq> gname"
  then show "read_polygons env path = Inl AssertionError"
    by (simp add: read_polygons_unfold[OF assms])
next
  fix store k r g
  assume ne: "PStr nm \<noteq> gname"
    and h: "path = store @ ''/'' @ k @ ''/polygons'' @ ''/'' @ k \<and>
            zarr_open env store = Some r \<and> k \<in> set (g_keys r) \<and>
            zarr_open env (store @ ''/'' @ k) = Some g \<and> ''polygons'' \<in> set (g_keys g)"
  from ne have "read_polygons env path = Inl AssertionError"
    by (simp add: read_polygons_unfold[OF assms])
  with h have fail: "read_polygons env (store @ ''/'' @ k @ ''/polygons'' @ ''/'' @ k) = Inl AssertionError"
    by simp
  from h have r: "zarr_open env store = Some r" and k: "k \<in> set (g_keys r)"
    and g: "zarr_open env (store @ ''/'' @ k) = Some g" and p: "''polygons'' \<in> set (g_keys g)"
    by simp_all
  show "\<exists>e. read_zarr env store = Inl e"
    using r k g p fail by (rule read_zarr_aborts_polygons)
next
  assume "PStr nm = gname"
  then show "read_polygons env path = polygons_finish env f (code, nm) (fst arrays) (snd arrays)"
    by (simp add: read_polygons_unfold[OF assms])
qed

lemma misnamed_parts:
  "zarr_open (example_env misnamed_polygons) ''data.zarr/b/polygons/b'' = Some misnamed_polygons"
  "polygons_arrays misnamed_polygons =
     Inr (Axis [Axis [Item (SInt 0), Item (SInt 0)], Axis [Item (SInt 1), Item (SInt 0)],
                Axis [Item (SInt 1), Item (SInt 1)], Axis [Item (SInt 0), Item (SInt 0)]],
          Axis [Item (SInt 0), Item (SInt 4)], Axis [Item (SInt 0), Item (SInt 1)])"
  "polygons_type (example_env misnamed_polygons) misnamed_polygons = Inr (3, ''POLYGON'')"
  "polygons_name misnamed_polygons = Inr (PStr ''POINT'')"
  by code_simp+

theorem geometry_name_cross_check_witness:
  "PStr ''POLYGON'' \<noteq> (PStr ''POINT'' :: nat pyval) \<and>
   read_polygons (example_env misnamed_polygons) ''data.zarr/b/polygons/b'' = Inl AssertionError \<and>
   (\<exists>e. read_zarr (example_env misnamed_polygons) ''data.zarr'' = Inl e)"
proof -
  have ne: "PStr ''POLYGON'' \<noteq> (PStr ''POINT'' :: nat pyval)" by simp
  note chk = geometry_name_cross_check[OF misnamed_parts, THEN conjunct2, THEN conjunct1, THEN mp, OF ne]
  have h: "''data.zarr/b/polygons/b'' = ''data.zarr'' @ ''/'' @ ''b'' @ ''/polygons'' @ ''/'' @ ''b'' \<and>
     zarr_open (example_env misnamed_polygons) ''data.zarr'' =
       Some \<lparr>g_keys = [''a'', ''b''], g_attrs = [], g_arrays = []\<rparr> \<and>
     ''b'' \<in> set (g_keys \<lparr>g_keys = [''a'', ''b''], g_attrs = [], g_arrays = [] :: (string \<times> ndarray) list\<rparr>) \<and>
     zarr_open (example_env misnamed_polygons) (''data.zarr'' @ ''/'' @ ''b'') =
       Some \<lparr>g_keys = [''polygons'', ''table''], g_attrs = [], g_arrays = []\<rparr> \<and>
     ''polygons'' \<in> set (g_keys \<lparr>g_keys = [''polygons'', ''table''], g_attrs = [], g_arrays = [] :: (string \<times> ndarray) list\<rparr>)"
    by (simp add: example_env_def)
  from chk[THEN conjunct2, rule_format, OF h] chk[THEN conjunct1] ne
  show ?thesis by simp
qed

text \<open>Scenario D of the specification, evaluated.\<close>

lemma scenario_D: "read_zarr (example_env misnamed_polygons) ''data.zarr'' = Inl AssertionError"
  by code_simp

text \<open>
  Claim C5, evaluated where the code departs from it. A polygons group that declares two
  transformation descriptions is decoded without an error, with the first transformation
  attached and the second one dropped, while the helper \<^verbatim>\<open>_get_transform_from_group\<close> of
  the same file raises its AssertionError on the same attributes.
\<close>
theorem second_transformation_ignored:
  "read_polygons (example_env two_transform_polygons) ''data.zarr/b/polygons/b'' =
     Inr \<lparr>geometry = (3, [SInt 0, SInt 0, SInt 1, SInt 0, SInt 1, SInt 1, SInt 0, SInt 0]),
          gdf_attrs = [(''transform'', PObj 7)]\<rparr> \<and>
   get_transform_from_group example_decoder (g_attrs two_transform_polygons) = Inl AssertionError"
  by code_simp

text \<open>
  The same for every group: the readers take the first description whatever follows it,
  fail on an empty list, and attach the decoded transformation to the frame's \<^verbatim>\<open>attrs\<close>.
\<close>

lemma first_transformation_of_many:
  assumes "first_dataset attrs = Inr d"
    and "getitem_key d ''coordinateTransformations'' = Inr (PList (c # cs))"
  shows "first_transformation dec attrs = dec c"
  using assms by (simp add: first_transformation_def)

lemma first_transformation_of_none:
  assumes "first_dataset attrs = Inr d"
    and "getitem_key d ''coordinateTransformations'' = Inr (PList [])"
  shows "first_transformation dec attrs = Inl IndexError"
  using assms by (simp add: first_transformation_def)

lemma polygons_transformation_attached:
  assumes "polygons_finish env f typ coords offsets = Inr gdf"
  shows "\<exists>t. first_transformation (get_transformation_from_dict env) (g_attrs f) = Inr t \<and>
             gdf_attrs gdf = [(''transform'', PObj t)]"
  using assms by (auto simp: polygons_finish_def and_then_Inr)

end
